theory Spec2Isabelle
  imports Main "HOL-Library.Word"
begin

unbundle bit_operations_syntax

section \<open>Machine integers and strings\<close>

text \<open>
  The judge core stores its numbers in \<open>int\<close> (32 bits) and \<open>long long\<close> (64 bits).
  They are modelled as mathematical integers; where the source narrows or may overflow,
  the two's complement wrap-around is written out with \<open>wrap32\<close> and \<open>wrap64\<close>.
  (Signed overflow of \<open>long long\<close> arithmetic is undefined in C++; the model takes the
  wrap-around of the target machine. No concrete input used below relies on it.)
\<close>

definition wrap32 :: "int \<Rightarrow> int" where
  "wrap32 x = (x + 2147483648) mod 4294967296 - 2147483648"

definition wrap64 :: "int \<Rightarrow> int" where
  "wrap64 x = (x + 9223372036854775808) mod 18446744073709551616 - 9223372036854775808"

text \<open>\<open>std::to_string\<close> and \<open>operator<<\<close> on an integer: plain decimal, \<open>-\<close> for negatives.\<close>

fun digits :: "nat \<Rightarrow> string" where
  "digits n = (if n < 10 then [''0123456789'' ! n]
               else digits (n div 10) @ [''0123456789'' ! (n mod 10)])"

definition to_string :: "int \<Rightarrow> string" where
  "to_string i = (if i < 0 then CHR ''-'' # digits (nat (- i)) else digits (nat i))"

definition is_digit :: "char \<Rightarrow> bool" where
  "is_digit c = (48 \<le> (of_char c :: nat) \<and> (of_char c :: nat) \<le> 57)"

definition digit_val :: "char \<Rightarrow> int" where
  "digit_val c = int (of_char c) - 48"

definition starts_with :: "string \<Rightarrow> string \<Rightarrow> bool" where
  "starts_with s p = (take (length p) s = p)"

text \<open>
  \<open>std::string::find(pat, pos)\<close>: the least index \<open>i \<ge> pos\<close> at which \<open>pat\<close> occurs in
  \<open>s\<close>, \<open>None\<close> for \<open>npos\<close>. \<open>find_at\<close> scans the suffix that starts at index \<open>i\<close>.
\<close>

fun find_at :: "string \<Rightarrow> string \<Rightarrow> nat \<Rightarrow> nat option" where
  "find_at pat [] i = (if pat = [] then Some i else None)"
| "find_at pat (c # cs) i =
     (if starts_with (c # cs) pat then Some i else find_at pat cs (Suc i))"

definition find_str :: "string \<Rightarrow> string \<Rightarrow> nat \<Rightarrow> nat option" where
  "find_str s pat pos = (if pos > length s then None else find_at pat (drop pos s) pos)"

section \<open>Data model\<close>

record JudgeResult =
  status :: string
  time_used :: int
  mem_used :: int
  exit_code :: int
  error_message :: string
  stdout_content :: string
  output_len :: int
  allocated_cpu :: string

record Limits =
  time_limit :: int
  memory_limit :: int
  output_limit :: int
  compile_timeout :: int
  stack_limit :: int

text \<open>
  The values \<open>status\<close> takes, as the comment on the field lists them, and the texts in
  which none of the five characters that the encoder escapes occurs (a decimal core
  number is one).
\<close>

definition verdicts :: "string list" where
  "verdicts = [''OK'', ''TLE'', ''MLE'', ''RE'', ''CE'', ''OLE'', ''SE'']"

definition plain_text :: "string \<Rightarrow> bool" where
  "plain_text s =
     list_all (\<lambda>c. c \<noteq> CHR 0x22 \<and> c \<noteq> CHR 0x5C \<and> c \<noteq> CHR 0x0A \<and> c \<noteq> CHR 0x0D \<and> c \<noteq> CHR 0x09) s"

section \<open>Limit loader\<close>

text \<open>
  \<open>parse_digits\<close> is the accumulation loop of \<open>parseJsonNumber\<close>:
  \<open>result = result * 10 + (json[pos] - '0')\<close> in \<open>long long\<close>, while the character is a digit.
\<close>

fun parse_digits :: "string \<Rightarrow> int \<Rightarrow> int" where
  "parse_digits [] acc = acc"
| "parse_digits (c # cs) acc =
     (if is_digit c then parse_digits cs (wrap64 (acc * 10 + digit_val c)) else acc)"

definition skip_blank :: "string \<Rightarrow> string" where
  "skip_blank s = dropWhile (\<lambda>c. c = CHR '' '' \<or> c = CHR 0x09) s"

definition parseJsonNumber :: "string \<Rightarrow> string \<Rightarrow> int" where
  "parseJsonNumber json key =
     (case find_str json ([CHR 0x22] @ key @ [CHR 0x22]) 0 of
        None \<Rightarrow> - 1
      | Some pos \<Rightarrow>
          (case find_str json '':'' pos of
             None \<Rightarrow> - 1
           | Some pos' \<Rightarrow> parse_digits (skip_blank (drop (Suc pos') json)) 0))"

text \<open>
  \<open>loadLimits\<close> takes the content of the limits file, \<open>None\<close> when the file cannot be
  opened. The parsed values are \<open>long long\<close>; \<open>time_limit\<close>, \<open>output_limit\<close> and
  \<open>compile_timeout\<close> are stored into \<open>int\<close> fields (a narrowing conversion), the two
  kibibyte fields are multiplied by 1024 in \<open>long long\<close>.
\<close>

definition loadLimits :: "string option \<Rightarrow> Limits" where
  "loadLimits file =
     (case file of
        None \<Rightarrow>
          \<lparr>time_limit = 1000, memory_limit = 67108864, output_limit = 64000000,
           compile_timeout = 30000, stack_limit = 8388608\<rparr>
      | Some json \<Rightarrow>
          (let tl = parseJsonNumber json ''time_limit'';
               ml = parseJsonNumber json ''memory_limit'';
               ol = parseJsonNumber json ''output_limit'';
               ct = parseJsonNumber json ''compile_timeout'';
               sl = parseJsonNumber json ''stack_limit''
           in \<lparr>time_limit = (if tl > 0 then wrap32 tl else 1000),
               memory_limit = (if ml > 0 then wrap64 (ml * 1024) else 67108864),
               output_limit = (if ol > 0 then wrap32 ol else 64000000),
               compile_timeout = (if ct > 0 then wrap32 ct else 30000),
               stack_limit = (if sl > 0 then wrap64 (sl * 1024) else 8388608)\<rparr>))"

section \<open>The host, as the supervising process sees it\<close>

text \<open>
  Everything \<open>runProgram\<close> learns from the kernel and the C++ library is read from a
  record of answers, so that a run is a function of this record. The calls the supervisor
  makes on the cgroup filesystem, on the child and on the pipe descriptors are appended,
  in program order, to a trace (\<open>select\<close> and \<open>read\<close> of the drain loop, which only
  observe, are not traced).
\<close>

datatype fork_result = Fork_failed | Fork_child | Fork_parent int

text \<open>
  One successful \<open>select\<close> of the drain loop: which read ends it flagged, and what a
  \<open>read\<close> on each returns (the empty string stands for a return value \<open>\<le> 0\<close>).
\<close>

record select_event =
  out_ready :: bool
  out_read :: string
  err_ready :: bool
  err_read :: string

record os =
  os_random :: int                               \<comment> \<open>the draw from \<open>uniform_int_distribution(100000, 999999)\<close>\<close>
  os_mkdir :: "string \<Rightarrow> bool"                  \<comment> \<open>\<open>mkdir(path, 0755) == 0\<close>\<close>
  os_open_out :: "string \<Rightarrow> bool"               \<comment> \<open>an \<open>ofstream\<close> on the path opened\<close>
  os_write_good :: "string \<Rightarrow> string \<Rightarrow> bool"   \<comment> \<open>the \<open>ofstream\<close> is \<open>good()\<close> after this text was written\<close>
  os_read :: "string \<Rightarrow> string option"          \<comment> \<open>what an \<open>ifstream\<close> on the path reads; \<open>None\<close>: not opened\<close>
  os_extract_ll :: "string \<Rightarrow> int option"       \<comment> \<open>\<open>stream >> long long\<close> on this content; \<open>None\<close>: not \<open>good()\<close> afterwards\<close>
  os_hash :: "string \<Rightarrow> 64 word"                \<comment> \<open>\<open>std::hash<string>\<close>\<close>
  os_clock :: int                                \<comment> \<open>\<open>high_resolution_clock::now().time_since_epoch().count()\<close>\<close>
  os_setaffinity :: "int \<Rightarrow> int \<Rightarrow> bool"         \<comment> \<open>\<open>sched_setaffinity(pid, {cpu}) == 0\<close>\<close>
  os_pipe_out :: "(int \<times> int) option"           \<comment> \<open>\<open>pipe(stdout_pipe)\<close>: read end and write end; \<open>None\<close> for -1\<close>
  os_pipe_err :: "(int \<times> int) option"           \<comment> \<open>\<open>pipe(stderr_pipe)\<close>\<close>
  os_fork :: fork_result
  os_drain :: "select_event list"                \<comment> \<open>the successful \<open>select\<close> calls; after them \<open>select\<close> returns \<open>\<le> 0\<close>\<close>
  os_wait4 :: "(int \<times> int) option"              \<comment> \<open>wait status and \<open>ru_maxrss\<close>; \<open>None\<close> for -1\<close>
  os_elapsed :: int                              \<comment> \<open>milliseconds between the two clock readings\<close>

datatype syscall =
    Sys_mkdir string
  | Sys_rmdir string
  | Sys_write string string
  | Sys_pipe
  | Sys_fork
  | Sys_kill int int
  | Sys_waitpid int
  | Sys_wait4 int
  | Sys_close int
  | Sys_setaffinity int int

section \<open>Cgroup manager\<close>

record CgroupManager =
  cgroup_path :: string
  cgroup_name :: string
  created :: bool

text \<open>The manager object together with the trace of the calls made so far.\<close>

record world =
  cg :: CgroupManager
  trace :: "syscall list"

definition log :: "syscall \<Rightarrow> world \<Rightarrow> world" where
  "log e w = w\<lparr>trace := trace w @ [e]\<rparr>"

definition endl :: string where
  "endl = [CHR 0x0A]"

definition CgroupManager_new :: "os \<Rightarrow> CgroupManager" where
  "CgroupManager_new os =
     (let name = ''judge_'' @ to_string (os_random os)
      in \<lparr>cgroup_path = ''/sys/fs/cgroup/'' @ name, cgroup_name = name, created = False\<rparr>)"

definition create :: "os \<Rightarrow> world \<Rightarrow> bool \<times> world" where
  "create os w =
     (let w' = log (Sys_mkdir (cgroup_path (cg w))) w
      in if \<not> os_mkdir os (cgroup_path (cg w)) then (False, w')
         else (True, w'\<lparr>cg := (cg w')\<lparr>created := True\<rparr>\<rparr>))"

definition setMemoryLimit :: "os \<Rightarrow> int \<Rightarrow> world \<Rightarrow> bool \<times> world" where
  "setMemoryLimit os limit_bytes w =
     (let file = cgroup_path (cg w) @ ''/memory.max''; text = to_string limit_bytes @ endl
      in if \<not> created (cg w) then (False, w)
         else if \<not> os_open_out os file then (False, w)
         else (os_write_good os file text, log (Sys_write file text) w))"

text \<open>\<open>getline\<close>: the successive lines of a stream, and its first line.\<close>

fun getlines :: "string \<Rightarrow> string \<Rightarrow> string list" where
  "getlines [] cur = (if cur = [] then [] else [cur])"
| "getlines (c # cs) cur =
     (if c = CHR 0x0A then cur # getlines cs [] else getlines cs (cur @ [c]))"

definition first_line :: "string \<Rightarrow> string" where
  "first_line s = takeWhile (\<lambda>c. c \<noteq> CHR 0x0A) s"

text \<open>The counting loop of \<open>getCpuCount\<close>, \<open>cpu_count++\<close> on an \<open>int\<close>.\<close>

fun count_processors :: "string list \<Rightarrow> int \<Rightarrow> int" where
  "count_processors [] cpu_count = cpu_count"
| "count_processors (line # rest) cpu_count =
     count_processors rest
       (if starts_with line ''processor'' then wrap32 (cpu_count + 1) else cpu_count)"

definition getCpuCount :: "os \<Rightarrow> int" where
  "getCpuCount os =
     (case os_read os ''/proc/cpuinfo'' of
        None \<Rightarrow> - 1
      | Some cpuinfo \<Rightarrow>
          (let cpu_count = count_processors (getlines cpuinfo []) 0
           in if cpu_count > 0 then cpu_count else 1))"

text \<open>
  \<open>hash_value\<close> is a \<open>size_t\<close>: the clock count is converted to 64 unsigned bits for the
  exclusive or, and the remainder is taken against the count converted likewise.
\<close>

definition selectCpuForBinding :: "os \<Rightarrow> CgroupManager \<Rightarrow> string" where
  "selectCpuForBinding os m =
     (let cpu_count = getCpuCount os
      in if cpu_count \<le> 0 then ''0''
         else
           (let hash_value = os_hash os (cgroup_name m) XOR word_of_int (os_clock os);
                selected_cpu = wrap32 (uint hash_value mod cpu_count)
            in to_string selected_cpu))"

definition setCpuLimit :: "os \<Rightarrow> world \<Rightarrow> bool \<times> world" where
  "setCpuLimit os w =
     (if \<not> created (cg w) then (False, w)
      else
        (let root_subtree = ''/sys/fs/cgroup/cgroup.subtree_control'';
             w1 = (if os_open_out os root_subtree
                   then log (Sys_write root_subtree (''+cpuset'' @ endl)) w else w);
             selected_cpu = selectCpuForBinding os (cg w);
             cpus = cgroup_path (cg w) @ ''/cpuset.cpus'';
             mems = cgroup_path (cg w) @ ''/cpuset.mems''
         in if selected_cpu = [] then (False, w1)
            else if \<not> os_open_out os cpus then (False, w1)
            else
              (let w2 = log (Sys_write cpus (selected_cpu @ endl)) w1
               in if \<not> os_write_good os cpus (selected_cpu @ endl) then (False, w2)
                  else
                    (let read_mems =
                           (case os_read os ''/sys/fs/cgroup/cpuset.mems.effective'' of
                              None \<Rightarrow> [] | Some c \<Rightarrow> first_line c);
                         available_mems = (if read_mems = [] then ''0'' else read_mems)
                     in if \<not> os_open_out os mems then (False, w2)
                        else (os_write_good os mems (available_mems @ endl),
                              log (Sys_write mems (available_mems @ endl)) w2)))))"

definition forceCpuBinding :: "os \<Rightarrow> int \<Rightarrow> int \<Rightarrow> world \<Rightarrow> bool \<times> world" where
  "forceCpuBinding os pid cpu_id w = (os_setaffinity os pid cpu_id, log (Sys_setaffinity pid cpu_id) w)"

definition addProcess :: "os \<Rightarrow> int \<Rightarrow> world \<Rightarrow> bool \<times> world" where
  "addProcess os pid w =
     (let file = cgroup_path (cg w) @ ''/cgroup.procs''; text = to_string pid @ endl
      in if \<not> created (cg w) then (False, w)
         else if \<not> os_open_out os file then (False, w)
         else (os_write_good os file text, log (Sys_write file text) w))"

definition getMemoryPeak :: "os \<Rightarrow> world \<Rightarrow> int" where
  "getMemoryPeak os w =
     (if \<not> created (cg w) then - 1
      else
        (case os_read os (cgroup_path (cg w) @ ''/memory.peak'') of
           None \<Rightarrow> - 1
         | Some content \<Rightarrow> (case os_extract_ll os content of None \<Rightarrow> - 1 | Some peak \<Rightarrow> peak)))"

definition getCurrentMemory :: "os \<Rightarrow> world \<Rightarrow> int" where
  "getCurrentMemory os w =
     (if \<not> created (cg w) then - 1
      else
        (case os_read os (cgroup_path (cg w) @ ''/memory.current'') of
           None \<Rightarrow> - 1
         | Some content \<Rightarrow> (case os_extract_ll os content of None \<Rightarrow> - 1 | Some cur \<Rightarrow> cur)))"

definition cleanup :: "world \<Rightarrow> world" where
  "cleanup w =
     (if created (cg w)
      then (log (Sys_rmdir (cgroup_path (cg w))) w)\<lparr>cg := (cg w)\<lparr>created := False\<rparr>\<rparr>
      else w)"

definition getAllocatedCpu :: "os \<Rightarrow> world \<Rightarrow> string" where
  "getAllocatedCpu os w =
     (if \<not> created (cg w) then []
      else
        (case os_read os (cgroup_path (cg w) @ ''/cpuset.cpus'') of
           None \<Rightarrow> []
         | Some content \<Rightarrow> first_line content))"

section \<open>Run stage\<close>

text \<open>
  What a call of \<open>runProgram\<close> comes to: it returns a result, or \<open>std::stoi\<close> throws
  out of it, or the flow of control is the forked child, which replaces its image with
  the user program or exits with code 1 and never returns a result.
\<close>

datatype exn = Invalid_argument | Out_of_range

datatype outcome = Returned JudgeResult | Threw exn | In_child

definition is_space :: "char \<Rightarrow> bool" where
  "is_space c = ((of_char c :: nat) = 32 \<or> (9 \<le> (of_char c :: nat) \<and> (of_char c :: nat) \<le> 13))"

definition decimal :: "string \<Rightarrow> int" where
  "decimal ds = foldl (\<lambda>acc c. acc * 10 + digit_val c) 0 ds"

text \<open>
  \<open>std::stoi\<close>: leading white space, an optional sign, then decimal digits; characters
  after the digits are ignored. No digit: \<open>invalid_argument\<close>; a value outside \<open>int\<close>:
  \<open>out_of_range\<close>.
\<close>

definition stoi :: "string \<Rightarrow> exn + int" where
  "stoi s =
     (let t = dropWhile is_space s;
          neg = (t \<noteq> [] \<and> hd t = CHR ''-'');
          u = (if t \<noteq> [] \<and> (hd t = CHR ''-'' \<or> hd t = CHR ''+'') then tl t else t);
          ds = takeWhile is_digit u;
          v = (if neg then - decimal ds else decimal ds)
      in if ds = [] then Inl Invalid_argument
         else if v < - 2147483648 \<or> 2147483647 < v then Inl Out_of_range
         else Inr v)"

text \<open>The wait-status macros and the signal numbers, as Linux defines them.\<close>

definition wrap8 :: "int \<Rightarrow> int" where
  "wrap8 x = (x + 128) mod 256 - 128"

definition WTERMSIG :: "int \<Rightarrow> int" where
  "WTERMSIG st = st AND 0x7f"

definition WEXITSTATUS :: "int \<Rightarrow> int" where
  "WEXITSTATUS st = drop_bit 8 (st AND 0xff00)"

definition WIFEXITED :: "int \<Rightarrow> bool" where
  "WIFEXITED st = (WTERMSIG st = 0)"

definition WIFSIGNALED :: "int \<Rightarrow> bool" where
  "WIFSIGNALED st = (drop_bit 1 (wrap8 ((st AND 0x7f) + 1)) > 0)"

definition SIGABRT :: int where "SIGABRT = 6"
definition SIGFPE :: int where "SIGFPE = 8"
definition SIGKILL :: int where "SIGKILL = 9"
definition SIGSEGV :: int where "SIGSEGV = 11"
definition SIGXCPU :: int where "SIGXCPU = 24"

text \<open>
  \<open>leave\<close> is a \<open>return\<close> of \<open>runProgram\<close>: the destructor of the local
  \<open>CgroupManager\<close> runs \<open>cleanup\<close> before the caller sees the result.
\<close>

definition leave :: "world \<Rightarrow> JudgeResult \<Rightarrow> outcome \<times> syscall list" where
  "leave w result = (Returned result, trace (cleanup w))"

text \<open>
  A chunk as the loop appends it: \<open>read\<close> fills at most 4095 bytes of the buffer, a NUL is
  stored behind them, and \<open>+=\<close> appends the buffer as a C string, up to its first NUL.
\<close>

definition c_str :: "string \<Rightarrow> string" where
  "c_str chunk = takeWhile (\<lambda>c. c \<noteq> CHR 0x00) (take 4095 chunk)"

text \<open>
  The drain loop on the state \<open>(stdout_output, stderr_output, stdout_done, stderr_done)\<close>.
  It ends when both pipes are done, or when \<open>select\<close> returns \<open>\<le> 0\<close>.
\<close>

fun drain :: "select_event list \<Rightarrow> string \<times> string \<times> bool \<times> bool \<Rightarrow> string \<times> string" where
  "drain [] (out, err, out_done, err_done) = (out, err)"
| "drain (e # es) (out, err, out_done, err_done) =
     (if out_done \<and> err_done then (out, err)
      else
        (let (out', out_done') =
               (if \<not> out_done \<and> out_ready e
                then (if out_read e = [] then (out, True) else (out @ c_str (out_read e), out_done))
                else (out, out_done));
             (err', err_done') =
               (if \<not> err_done \<and> err_ready e
                then (if err_read e = [] then (err, True) else (err @ c_str (err_read e), err_done))
                else (err, err_done))
         in drain es (out', err', out_done', err_done')))"

text \<open>The verdict from the wait status, once time, memory and output are recorded.\<close>

definition classify :: "Limits \<Rightarrow> int \<Rightarrow> string \<Rightarrow> JudgeResult \<Rightarrow> JudgeResult" where
  "classify limits st stderr_output result =
     (if WIFEXITED st then
        (let result = result\<lparr>exit_code := WEXITSTATUS st\<rparr>
         in if exit_code result = 0 then
              (if time_used result > time_limit limits then result\<lparr>status := ''TLE''\<rparr>
               else if mem_used result > memory_limit limits then result\<lparr>status := ''MLE''\<rparr>
               else if output_len result > output_limit limits then result\<lparr>status := ''OLE''\<rparr>
               else result\<lparr>status := ''OK''\<rparr>)
            else
              result\<lparr>status := ''RE'',
                error_message :=
                  ''Program exited with non-zero code: '' @ to_string (exit_code result) @
                  (if stderr_output \<noteq> [] then CHR 0x5C # ''nStderr: '' @ stderr_output else [])\<rparr>)
      else if WIFSIGNALED st then
        (let signal_num = WTERMSIG st;
             result = result\<lparr>exit_code := 128 + signal_num\<rparr>
         in if signal_num = SIGXCPU then
              result\<lparr>status := ''TLE'', error_message := ''Time limit exceeded (SIGXCPU)''\<rparr>
            else if signal_num = SIGKILL then
              (if mem_used result > memory_limit limits
               then result\<lparr>status := ''MLE'', error_message := ''Memory limit exceeded (cgroup)''\<rparr>
               else result\<lparr>status := ''TLE'', error_message := ''Time limit exceeded (SIGKILL)''\<rparr>)
            else if signal_num = SIGSEGV then
              result\<lparr>status := ''RE'', error_message := ''Segmentation fault''\<rparr>
            else if signal_num = SIGFPE then
              result\<lparr>status := ''RE'', error_message := ''Floating point exception''\<rparr>
            else if signal_num = SIGABRT then
              (if mem_used result > memory_limit limits
               then result\<lparr>status := ''MLE'',
                      error_message := ''Memory limit exceeded (allocation failed)''\<rparr>
               else result\<lparr>status := ''RE'', error_message := ''Program aborted''\<rparr>)
            else
              result\<lparr>status := ''RE'',
                error_message := ''Program terminated by signal '' @ to_string signal_num\<rparr>)
      else result)"

text \<open>After the drain loop: close the read ends, reap the child, measure, classify.\<close>

definition run_reap ::
  "os \<Rightarrow> Limits \<Rightarrow> JudgeResult \<Rightarrow> world \<Rightarrow> int \<Rightarrow> int \<times> int \<Rightarrow> int \<times> int \<Rightarrow> string \<times> string
     \<Rightarrow> outcome \<times> syscall list" where
  "run_reap os limits result w pid stdout_pipe stderr_pipe outputs =
     (let stdout_output = fst outputs; stderr_output = snd outputs;
          w1 = log (Sys_wait4 pid) (log (Sys_close (fst stderr_pipe)) (log (Sys_close (fst stdout_pipe)) w))
      in case os_wait4 os of
           None \<Rightarrow> leave w1 (result\<lparr>error_message := ''Failed to wait for child process''\<rparr>)
         | Some (st, ru_maxrss) \<Rightarrow>
             (let memory_peak = getMemoryPeak os w1;
                  result = result\<lparr>time_used := os_elapsed os\<rparr>;
                  result = result\<lparr>mem_used :=
                             (if memory_peak > 0 then memory_peak else wrap64 (ru_maxrss * 1024))\<rparr>;
                  result = result\<lparr>stdout_content := stdout_output\<rparr>;
                  result = result\<lparr>output_len := wrap32 (int (length stdout_output))\<rparr>
              in leave w1 (classify limits st stderr_output result)))"

text \<open>The supervising branch of the \<open>fork\<close>.\<close>

definition run_parent ::
  "os \<Rightarrow> Limits \<Rightarrow> JudgeResult \<Rightarrow> world \<Rightarrow> int \<Rightarrow> int \<times> int \<Rightarrow> int \<times> int \<Rightarrow> outcome \<times> syscall list" where
  "run_parent os limits result w pid stdout_pipe stderr_pipe =
     (case addProcess os pid w of
        (False, w1) \<Rightarrow>
          leave
            (log (Sys_close (snd stderr_pipe)) (log (Sys_close (fst stderr_pipe))
              (log (Sys_close (snd stdout_pipe)) (log (Sys_close (fst stdout_pipe))
                (log (Sys_waitpid pid) (log (Sys_kill pid SIGKILL) w1))))))
            (result\<lparr>error_message := ''Failed to add process to cgroup''\<rparr>)
      | (True, w1) \<Rightarrow>
          (let allocated_cpu_str = allocated_cpu result;
               bound =
                 (if allocated_cpu_str \<noteq> [] then
                    (case stoi allocated_cpu_str of
                       Inl e \<Rightarrow> Inl e
                     | Inr allocated_cpu_id \<Rightarrow>
                         (case forceCpuBinding os pid allocated_cpu_id w1 of
                            (False, w2) \<Rightarrow>
                              Inr (result\<lparr>error_message := error_message result @
                                     ''Warning: Failed to set CPU affinity; ''\<rparr>, w2)
                          | (True, w2) \<Rightarrow> Inr (result, w2)))
                  else Inr (result, w1))
           in case bound of
                Inl e \<Rightarrow> (Threw e, trace (cleanup w1))
              | Inr (result, w2) \<Rightarrow>
                  (let w3 = log (Sys_close (snd stderr_pipe)) (log (Sys_close (snd stdout_pipe)) w2)
                   in run_reap os limits result w3 pid stdout_pipe stderr_pipe
                        (drain (os_drain os) ([], [], False, False)))))"

text \<open>The two pipes and the \<open>fork\<close>, with the cgroup configured.\<close>

definition run_fork :: "os \<Rightarrow> Limits \<Rightarrow> JudgeResult \<Rightarrow> world \<Rightarrow> outcome \<times> syscall list" where
  "run_fork os limits result w =
     (case os_pipe_out os of
        None \<Rightarrow> leave (log Sys_pipe w) (result\<lparr>error_message := ''Failed to create pipes''\<rparr>)
      | Some stdout_pipe \<Rightarrow>
          (case os_pipe_err os of
             None \<Rightarrow>
               leave (log Sys_pipe (log Sys_pipe w))
                 (result\<lparr>error_message := ''Failed to create pipes''\<rparr>)
           | Some stderr_pipe \<Rightarrow>
               (let w1 = log Sys_fork (log Sys_pipe (log Sys_pipe w))
                in case os_fork os of
                     Fork_failed \<Rightarrow>
                       leave
                         (log (Sys_close (snd stderr_pipe)) (log (Sys_close (fst stderr_pipe))
                           (log (Sys_close (snd stdout_pipe)) (log (Sys_close (fst stdout_pipe)) w1))))
                         (result\<lparr>error_message := ''Failed to fork process''\<rparr>)
                   | Fork_child \<Rightarrow> (In_child, trace w1)
                   | Fork_parent pid \<Rightarrow> run_parent os limits result w1 pid stdout_pipe stderr_pipe)))"

definition msg_create_failed :: string where
  "msg_create_failed =
     ''Failed to create cgroup ('' @
     [CHR 0xE9, CHR 0x9C, CHR 0x80, CHR 0xE8, CHR 0xA6, CHR 0x81] @ ''root'' @
     [CHR 0xE6, CHR 0x9D, CHR 0x83, CHR 0xE9, CHR 0x99, CHR 0x90] @ '')''"

definition runProgram :: "os \<Rightarrow> string \<Rightarrow> string \<Rightarrow> Limits \<Rightarrow> outcome \<times> syscall list" where
  "runProgram os executable input_file limits =
     (let result = \<lparr>status = ''RE'', time_used = 0, mem_used = 0, exit_code = - 1,
                     error_message = [], stdout_content = [], output_len = 0,
                     allocated_cpu = []\<rparr>;
          w = \<lparr>cg = CgroupManager_new os, trace = []\<rparr>
      in case create os w of
           (False, w1) \<Rightarrow> leave w1 (result\<lparr>error_message := msg_create_failed\<rparr>)
         | (True, w1) \<Rightarrow>
             (case setMemoryLimit os (memory_limit limits) w1 of
                (False, w2) \<Rightarrow>
                  leave w2 (result\<lparr>error_message := ''Failed to set memory limit in cgroup''\<rparr>)
              | (True, w2) \<Rightarrow>
                  (case setCpuLimit os w2 of
                     (False, w3) \<Rightarrow>
                       leave w3 (result\<lparr>error_message := ''Failed to set CPU limit in cgroup''\<rparr>)
                   | (True, w3) \<Rightarrow>
                       run_fork os limits (result\<lparr>allocated_cpu := getAllocatedCpu os w3\<rparr>) w3)))"

section \<open>A sample host\<close>

text \<open>
  A host on which every call succeeds: two processor lines in \<open>/proc/cpuinfo\<close>, the
  child gets pid 4242, prints \<open>hello\<close>, and exits with code 0 after 12 ms with a peak of
  2 MiB. The sample runs below are variations of it.
\<close>

definition demo_files :: "string \<Rightarrow> string option" where
  "demo_files path =
     (if path = ''/proc/cpuinfo''
      then Some (''processor : 0'' @ endl @ ''model name : cpu'' @ endl @ ''processor : 1'' @ endl)
      else if path = ''/sys/fs/cgroup/judge_123456/cpuset.cpus'' then Some (''1'' @ endl)
      else if path = ''/sys/fs/cgroup/judge_123456/memory.peak'' then Some (''2097152'' @ endl)
      else None)"

definition demo_os :: os where
  "demo_os =
     \<lparr>os_random = 123456, os_mkdir = (\<lambda>_. True), os_open_out = (\<lambda>_. True),
      os_write_good = (\<lambda>_ _. True), os_read = demo_files,
      os_extract_ll = (\<lambda>s. if s = ''2097152'' @ endl then Some 2097152 else None),
      os_hash = (\<lambda>_. 5), os_clock = 6, os_setaffinity = (\<lambda>_ _. True),
      os_pipe_out = Some (3, 4), os_pipe_err = Some (5, 6), os_fork = Fork_parent 4242,
      os_drain =
        [\<lparr>out_ready = True, out_read = ''hello'', err_ready = False, err_read = []\<rparr>,
         \<lparr>out_ready = True, out_read = [], err_ready = True, err_read = []\<rparr>],
      os_wait4 = Some (0, 1500), os_elapsed = 12\<rparr>"

definition demo_limits :: Limits where
  "demo_limits = \<lparr>time_limit = 1000, memory_limit = 67108864, output_limit = 64000000,
                   compile_timeout = 30000, stack_limit = 8388608\<rparr>"

section \<open>Path conditions of a run\<close>

text \<open>
  Names for the points a run passes through, read off the control flow of \<open>runProgram\<close>:
  the world after each cgroup step, whether the three steps succeeded, whether the child
  was forked and enrolled, and whether the affinity step let the run go on to the reap.
  \<open>fault_result\<close> is the result \<open>runProgram\<close> starts from, with a message and the
  \<open>allocated_cpu\<close> set.
\<close>

definition fault_result :: "string \<Rightarrow> string \<Rightarrow> JudgeResult" where
  "fault_result msg cpu =
     \<lparr>status = ''RE'', time_used = 0, mem_used = 0, exit_code = - 1, error_message = msg,
      stdout_content = [], output_len = 0, allocated_cpu = cpu\<rparr>"

definition w_new :: "os \<Rightarrow> world" where
  "w_new os = \<lparr>cg = CgroupManager_new os, trace = []\<rparr>"

definition w_created :: "os \<Rightarrow> world" where
  "w_created os = snd (create os (w_new os))"

definition w_memory :: "os \<Rightarrow> Limits \<Rightarrow> world" where
  "w_memory os limits = snd (setMemoryLimit os (memory_limit limits) (w_created os))"

definition w_cpu :: "os \<Rightarrow> Limits \<Rightarrow> world" where
  "w_cpu os limits = snd (setCpuLimit os (w_memory os limits))"

definition cgroup_ready :: "os \<Rightarrow> Limits \<Rightarrow> bool" where
  "cgroup_ready os limits =
     (fst (create os (w_new os)) \<and>
      fst (setMemoryLimit os (memory_limit limits) (w_created os)) \<and>
      fst (setCpuLimit os (w_memory os limits)))"

definition cpu_read :: "os \<Rightarrow> Limits \<Rightarrow> string" where
  "cpu_read os limits = getAllocatedCpu os (w_cpu os limits)"

definition w_forked :: "os \<Rightarrow> Limits \<Rightarrow> world" where
  "w_forked os limits = log Sys_fork (log Sys_pipe (log Sys_pipe (w_cpu os limits)))"

definition child_forked :: "os \<Rightarrow> Limits \<Rightarrow> int \<Rightarrow> bool" where
  "child_forked os limits pid =
     (cgroup_ready os limits \<and> os_pipe_out os \<noteq> None \<and> os_pipe_err os \<noteq> None \<and>
      os_fork os = Fork_parent pid)"

definition child_enrolled :: "os \<Rightarrow> Limits \<Rightarrow> int \<Rightarrow> bool" where
  "child_enrolled os limits pid =
     (child_forked os limits pid \<and> fst (addProcess os pid (w_forked os limits)))"

definition child_awaited :: "os \<Rightarrow> Limits \<Rightarrow> int \<Rightarrow> bool" where
  "child_awaited os limits pid =
     (child_enrolled os limits pid \<and>
      (cpu_read os limits = [] \<or> \<not> isl (stoi (cpu_read os limits))))"

text \<open>
  The run came to the reap and \<open>wait4\<close> succeeded: the only way to the lines that record
  time, memory and the captured output.
\<close>

definition child_reaped :: "os \<Rightarrow> Limits \<Rightarrow> bool" where
  "child_reaped os limits =
     (case os_fork os of
        Fork_parent pid \<Rightarrow> child_awaited os limits pid \<and> os_wait4 os \<noteq> None
      | _ \<Rightarrow> False)"

text \<open>
  What the supervisor reads from the standard output pipe during the drain loop: the
  chunks returned by the reads on it, in order, up to the first read that returns
  \<open>\<le> 0\<close> (end of file) or to the last successful \<open>select\<close>.
\<close>

fun stdout_written :: "select_event list \<Rightarrow> string" where
  "stdout_written [] = []"
| "stdout_written (e # es) =
     (if out_ready e then (if out_read e = [] then [] else out_read e @ stdout_written es)
      else stdout_written es)"

section \<open>Result encoder\<close>

text \<open>The character-by-character escaping loop of \<open>resultToJson\<close>.\<close>

definition escape_char :: "char \<Rightarrow> string" where
  "escape_char c =
     (if c = CHR 0x22 then [CHR 0x5C, CHR 0x22]
      else if c = CHR 0x5C then [CHR 0x5C, CHR 0x5C]
      else if c = CHR 0x0A then [CHR 0x5C, CHR ''n'']
      else if c = CHR 0x0D then [CHR 0x5C, CHR ''r'']
      else if c = CHR 0x09 then [CHR 0x5C, CHR ''t'']
      else [c])"

definition escape :: "string \<Rightarrow> string" where
  "escape s = concat (map escape_char s)"

definition resultToJson :: "JudgeResult \<Rightarrow> string" where
  \<open>resultToJson result =
     ''{'' @ endl @
     ''  "status": "'' @ status result @ ''",'' @ endl @
     ''  "time_used": '' @ to_string (time_used result) @ '','' @ endl @
     ''  "mem_used": '' @ to_string (mem_used result) @ '','' @ endl @
     ''  "exit_code": '' @ to_string (exit_code result) @ '','' @ endl @
     ''  "error_message": "'' @ escape (error_message result) @ ''",'' @ endl @
     ''  "stdout": "'' @ escape (stdout_content result) @ ''",'' @ endl @
     ''  "output_len": '' @ to_string (output_len result) @ '','' @ endl @
     ''  "allocated_cpu": "'' @ allocated_cpu result @ ''"'' @ endl @
     ''}''\<close>

section \<open>A decoder for the encoder's output\<close>

text \<open>
  The inverse of the escape rules, reading up to the closing double quote: the decoded
  text and what follows the quote. \<open>None\<close> when the text is not closed or an escape is
  not one of the five.
\<close>

definition unescape_char :: "char \<Rightarrow> char option" where
  "unescape_char d =
     (if d = CHR 0x22 then Some (CHR 0x22)
      else if d = CHR 0x5C then Some (CHR 0x5C)
      else if d = CHR ''n'' then Some (CHR 0x0A)
      else if d = CHR ''r'' then Some (CHR 0x0D)
      else if d = CHR ''t'' then Some (CHR 0x09)
      else None)"

fun unescape_to_quote :: "string \<Rightarrow> (string \<times> string) option" where
  "unescape_to_quote [] = None"
| "unescape_to_quote [c] = (if c = CHR 0x22 then Some ([], []) else None)"
| "unescape_to_quote (c # d # ds) =
     (if c = CHR 0x22 then Some ([], d # ds)
      else if c = CHR 0x5C then
        (case unescape_char d of
           None \<Rightarrow> None
         | Some x \<Rightarrow> map_option (\<lambda>(s, rest). (x # s, rest)) (unescape_to_quote ds))
      else map_option (\<lambda>(s, rest). (c # s, rest)) (unescape_to_quote (d # ds)))"

definition read_int :: "string \<Rightarrow> (int \<times> string) option" where
  "read_int s =
     (let neg = (s \<noteq> [] \<and> hd s = CHR ''-'');
          u = (if neg then tl s else s);
          ds = takeWhile is_digit u
      in if ds = [] then None
         else Some (if neg then - decimal ds else decimal ds, dropWhile is_digit u))"

definition expect :: "string \<Rightarrow> string \<Rightarrow> string option" where
  "expect p s = (if starts_with s p then Some (drop (length p) s) else None)"

text \<open>The fixed text between the values, in the order the encoder writes it.\<close>

definition json_open :: string where
  \<open>json_open = ''{'' @ endl @ ''  "status": "''\<close>

definition sep_time_used :: string where
  \<open>sep_time_used = '','' @ endl @ ''  "time_used": ''\<close>

definition sep_mem_used :: string where
  \<open>sep_mem_used = '','' @ endl @ ''  "mem_used": ''\<close>

definition sep_exit_code :: string where
  \<open>sep_exit_code = '','' @ endl @ ''  "exit_code": ''\<close>

definition sep_error_message :: string where
  \<open>sep_error_message = '','' @ endl @ ''  "error_message": "''\<close>

definition sep_stdout :: string where
  \<open>sep_stdout = '','' @ endl @ ''  "stdout": "''\<close>

definition sep_output_len :: string where
  \<open>sep_output_len = '','' @ endl @ ''  "output_len": ''\<close>

definition sep_allocated_cpu :: string where
  \<open>sep_allocated_cpu = '','' @ endl @ ''  "allocated_cpu": "''\<close>

definition json_close :: string where
  "json_close = endl @ ''}''"

text \<open>
  The decoder reads the eight values in the encoder's order: the four strings through
  the inverse of the escape rules, the numbers as decimal.
\<close>

definition decodeJson :: "string \<Rightarrow> JudgeResult option" where
  "decodeJson s0 =
     Option.bind (expect json_open s0) (\<lambda>s1.
     Option.bind (unescape_to_quote s1) (\<lambda>(st, s2).
     Option.bind (expect sep_time_used s2) (\<lambda>s3.
     Option.bind (read_int s3) (\<lambda>(t, s4).
     Option.bind (expect sep_mem_used s4) (\<lambda>s5.
     Option.bind (read_int s5) (\<lambda>(m, s6).
     Option.bind (expect sep_exit_code s6) (\<lambda>s7.
     Option.bind (read_int s7) (\<lambda>(e, s8).
     Option.bind (expect sep_error_message s8) (\<lambda>s9.
     Option.bind (unescape_to_quote s9) (\<lambda>(em, s10).
     Option.bind (expect sep_stdout s10) (\<lambda>s11.
     Option.bind (unescape_to_quote s11) (\<lambda>(so, s12).
     Option.bind (expect sep_output_len s12) (\<lambda>s13.
     Option.bind (read_int s13) (\<lambda>(ol, s14).
     Option.bind (expect sep_allocated_cpu s14) (\<lambda>s15.
     Option.bind (unescape_to_quote s15) (\<lambda>(cpu, s16).
       if s16 = json_close
       then Some \<lparr>status = st, time_used = t, mem_used = m, exit_code = e, error_message = em,
                  stdout_content = so, output_len = ol, allocated_cpu = cpu\<rparr>
       else None))))))))))))))))"

section \<open>Arithmetic of the wait status and of the processor count\<close>

lemma WTERMSIG_range: "0 \<le> WTERMSIG st \<and> WTERMSIG st \<le> 127"
  unfolding WTERMSIG_def by (simp add: AND_upper2')

lemma signaled_arith:
  fixes x :: int
  assumes "0 \<le> x" "x \<le> 127"
  shows "0 < ((x + 1 + 128) mod 256 - 128) div 2 \<longleftrightarrow> 1 \<le> x \<and> x \<le> 126"
proof (cases "x = 127")
  case True
  then show ?thesis by simp
next
  case False
  with assms have "x + 1 + 128 < 256" "0 \<le> x + 1 + 128" by simp_all
  then have "(x + 1 + 128) mod 256 = x + 1 + 128" by simp
  with assms False show ?thesis by auto
qed

lemma WIFSIGNALED_iff: "WIFSIGNALED st \<longleftrightarrow> 1 \<le> WTERMSIG st \<and> WTERMSIG st \<le> 126"
proof -
  have "WIFSIGNALED st \<longleftrightarrow> 0 < ((WTERMSIG st + 1 + 128) mod 256 - 128) div 2"
    by (simp add: WIFSIGNALED_def wrap8_def drop_bit_eq_div WTERMSIG_def)
  then show ?thesis
    using signaled_arith [of "WTERMSIG st"] WTERMSIG_range [of st] by blast
qed

lemma count_processors_eq:
  "0 \<le> n \<Longrightarrow> n + int (length (filter (\<lambda>l. starts_with l ''processor'') ls)) < 2147483648 \<Longrightarrow>
   count_processors ls n = n + int (length (filter (\<lambda>l. starts_with l ''processor'') ls))"
proof (induction ls arbitrary: n)
  case Nil
  then show ?case by simp
next
  case (Cons l ls)
  show ?case
  proof (cases "starts_with l ''processor''")
    case True
    with Cons.prems have b: "0 \<le> n + 1" "n + 1 < 2147483648" by simp_all
    then have w: "wrap32 (n + 1) = n + 1" by (simp add: wrap32_def)
    from Cons.IH [of "n + 1"] Cons.prems True b show ?thesis by (simp add: w)
  next
    case False
    with Cons.IH [of n] Cons.prems show ?thesis by simp
  qed
qed

section \<open>Limit loader: results\<close>

text \<open>
  The loader on a missing file, on an empty file, and on the configuration of the
  end-to-end scenarios (the two kibibyte fields are scaled by 1024).
\<close>

lemma loadLimits_defaults:
  "loadLimits None =
     \<lparr>time_limit = 1000, memory_limit = 67108864, output_limit = 64000000,
      compile_timeout = 30000, stack_limit = 8388608\<rparr>"
  "loadLimits (Some []) =
     \<lparr>time_limit = 1000, memory_limit = 67108864, output_limit = 64000000,
      compile_timeout = 30000, stack_limit = 8388608\<rparr>"
  by (simp_all add: loadLimits_def parseJsonNumber_def find_str_def)

lemma loadLimits_scenario:
  \<open>loadLimits (Some ''{"time_limit": 2000, "memory_limit": 1024, "stack_limit": 4}'') =
     \<lparr>time_limit = 2000, memory_limit = 1048576, output_limit = 64000000,
      compile_timeout = 30000, stack_limit = 4096\<rparr>\<close>
  by (simp add: loadLimits_def parseJsonNumber_def find_str_def starts_with_def skip_blank_def
      is_digit_def digit_val_def wrap32_def wrap64_def)

text \<open>
  C5. The loader is meant to return five positive fields, each one falling back to its
  default when missing or non-positive. The positivity test is made on the parsed
  \<open>long long\<close>, before the value is narrowed to \<open>int\<close>: the well-formed configuration
  \<open>{"time_limit": 4294967296}\<close> passes the test and is stored as a time limit of 0, while
  the four absent fields take their defaults.
\<close>

theorem loadLimits_time_limit_narrowed:
  \<open>loadLimits (Some ''{"time_limit": 4294967296}'') =
     \<lparr>time_limit = 0, memory_limit = 67108864, output_limit = 64000000,
      compile_timeout = 30000, stack_limit = 8388608\<rparr>\<close>
  by (simp add: loadLimits_def parseJsonNumber_def find_str_def starts_with_def skip_blank_def
      is_digit_def digit_val_def wrap32_def wrap64_def)

section \<open>Cgroup manager: results\<close>

text \<open>
  C10. Every operation on the node is guarded by \<open>created\<close>. While the flag is unset (as
  it is on a new manager, and stays after a failed \<open>create\<close>), \<open>setMemoryLimit\<close>,
  \<open>setCpuLimit\<close> and \<open>addProcess\<close> return false without touching anything,
  \<open>getMemoryPeak\<close> and \<open>getCurrentMemory\<close> return -1, \<open>getAllocatedCpu\<close> returns the
  empty string and \<open>cleanup\<close> does nothing. With the flag set, \<open>cleanup\<close> removes the
  directory and clears the flag, so a second \<open>cleanup\<close> changes nothing.
\<close>

theorem CgroupManager_guarded_by_created:
  "(\<not> created (cg w) \<longrightarrow>
      setMemoryLimit os n w = (False, w) \<and> setCpuLimit os w = (False, w) \<and>
      addProcess os pid w = (False, w) \<and> getMemoryPeak os w = - 1 \<and>
      getCurrentMemory os w = - 1 \<and> getAllocatedCpu os w = [] \<and> cleanup w = w) \<and>
   (created (cg w) \<longrightarrow>
      cleanup w = w\<lparr>cg := (cg w)\<lparr>created := False\<rparr>,
                      trace := trace w @ [Sys_rmdir (cgroup_path (cg w))]\<rparr>) \<and>
   cleanup (cleanup w) = cleanup w \<and>
   \<not> created (cg (cleanup w)) \<and>
   \<not> created (CgroupManager_new os) \<and>
   (created (cg (snd (create os w))) \<longleftrightarrow> created (cg w) \<or> fst (create os w))"
  by (simp add: setMemoryLimit_def setCpuLimit_def addProcess_def getMemoryPeak_def
      getCurrentMemory_def getAllocatedCpu_def cleanup_def log_def create_def
      CgroupManager_new_def Let_def)

theorem CgroupManager_guarded_by_created_witness:
  "\<not> created (cg \<lparr>cg = CgroupManager_new demo_os, trace = []\<rparr>) \<and>
   setMemoryLimit demo_os 67108864 \<lparr>cg = CgroupManager_new demo_os, trace = []\<rparr> =
     (False, \<lparr>cg = CgroupManager_new demo_os, trace = []\<rparr>) \<and>
   getMemoryPeak demo_os \<lparr>cg = CgroupManager_new demo_os, trace = []\<rparr> = - 1 \<and>
   created (cg (snd (create demo_os \<lparr>cg = CgroupManager_new demo_os, trace = []\<rparr>))) \<and>
   trace (cleanup (snd (create demo_os \<lparr>cg = CgroupManager_new demo_os, trace = []\<rparr>))) =
     [Sys_mkdir ''/sys/fs/cgroup/judge_123456'', Sys_rmdir ''/sys/fs/cgroup/judge_123456''] \<and>
   cleanup (cleanup (snd (create demo_os \<lparr>cg = CgroupManager_new demo_os, trace = []\<rparr>))) =
     cleanup (snd (create demo_os \<lparr>cg = CgroupManager_new demo_os, trace = []\<rparr>))"
proof -
  let ?w0 = "\<lparr>cg = CgroupManager_new demo_os, trace = []\<rparr>"
  let ?w1 = "snd (create demo_os ?w0)"
  have fresh: "\<not> created (cg ?w0)"
    by (simp add: CgroupManager_new_def Let_def)
  have made: "created (cg ?w1)"
    by (simp add: create_def demo_os_def Let_def log_def)
  have path: "cgroup_path (cg ?w1) = ''/sys/fs/cgroup/judge_123456''"
    by (simp add: create_def demo_os_def Let_def log_def CgroupManager_new_def to_string_def)
  have tr: "trace ?w1 = [Sys_mkdir ''/sys/fs/cgroup/judge_123456'']"
    by (simp add: create_def demo_os_def Let_def log_def CgroupManager_new_def to_string_def)
  from fresh CgroupManager_guarded_by_created [of ?w0 demo_os 67108864 4242]
  have g0: "setMemoryLimit demo_os 67108864 ?w0 = (False, ?w0)" "getMemoryPeak demo_os ?w0 = - 1"
    by blast+
  from made CgroupManager_guarded_by_created [of ?w1 demo_os 67108864 4242]
  have g1: "cleanup ?w1 = ?w1\<lparr>cg := (cg ?w1)\<lparr>created := False\<rparr>,
                      trace := trace ?w1 @ [Sys_rmdir (cgroup_path (cg ?w1))]\<rparr>"
    "cleanup (cleanup ?w1) = cleanup ?w1"
    by blast+
  have "trace (cleanup ?w1) =
      [Sys_mkdir ''/sys/fs/cgroup/judge_123456'', Sys_rmdir ''/sys/fs/cgroup/judge_123456'']"
    by (simp add: g1(1) tr path)
  with fresh made g0 g1(2) show ?thesis by blast
qed

lemma uint_mod_bounds:
  fixes c :: int
  assumes "0 < c" "c < 2147483648"
  shows "wrap32 (uint (h :: 64 word) mod c) = uint h mod c"
proof -
  have "0 \<le> uint h mod c" "uint h mod c < c" using assms by simp_all
  with assms show ?thesis by (simp add: wrap32_def)
qed

text \<open>
  C8 (as amended). With \<open>N\<close> the number of lines of \<open>/proc/cpuinfo\<close> that begin with
  \<open>processor\<close> (fewer than \<open>2^31\<close>): \<open>getCpuCount\<close> returns -1 when the file cannot be
  read, and \<open>max 1 N\<close> when it can, so 1 when it lists no processor. The selector returns
  \<open>"0"\<close> in the unreadable case, and otherwise the decimal string of the index
  \<open>(hash(cgroup_name) XOR clock ticks) mod max 1 N\<close>, computed on 64 unsigned bits, which lies
  in \<open>[0, max 1 N)\<close>.
\<close>

theorem selectCpuForBinding_index:
  "(os_read os ''/proc/cpuinfo'' = None \<longrightarrow>
      getCpuCount os = - 1 \<and> selectCpuForBinding os m = ''0'') \<and>
   (let N = int (length (filter (\<lambda>l. starts_with l ''processor'') (getlines cpuinfo [])));
        k = uint (os_hash os (cgroup_name m) XOR word_of_int (os_clock os)) mod max 1 N
    in os_read os ''/proc/cpuinfo'' = Some cpuinfo \<and> N < 2147483648 \<longrightarrow>
         getCpuCount os = max 1 N \<and> selectCpuForBinding os m = to_string k \<and>
         0 \<le> k \<and> k < max 1 N)"
proof -
  let ?N = "int (length (filter (\<lambda>l. starts_with l ''processor'') (getlines cpuinfo [])))"
  have none: "os_read os ''/proc/cpuinfo'' = None \<Longrightarrow>
      getCpuCount os = - 1 \<and> selectCpuForBinding os m = ''0''"
    by (simp add: getCpuCount_def selectCpuForBinding_def)
  have some: "getCpuCount os = max 1 ?N"
    if "os_read os ''/proc/cpuinfo'' = Some cpuinfo" "?N < 2147483648"
    using that count_processors_eq [of 0 "getlines cpuinfo []"]
    by (cases "filter (\<lambda>l. starts_with l ''processor'') (getlines cpuinfo [])")
      (auto simp: getCpuCount_def Let_def)
  have sel: "selectCpuForBinding os m =
      to_string (uint (os_hash os (cgroup_name m) XOR word_of_int (os_clock os)) mod max 1 ?N)"
    if "os_read os ''/proc/cpuinfo'' = Some cpuinfo" "?N < 2147483648"
  proof -
    have "0 < max 1 ?N" "max 1 ?N < 2147483648" using that by simp_all
    then show ?thesis
      using some [OF that] uint_mod_bounds [of "max 1 ?N"]
      by (simp add: selectCpuForBinding_def Let_def)
  qed
  have rng: "0 \<le> uint (h :: 64 word) mod max 1 ?N \<and> uint h mod max 1 ?N < max 1 ?N" for h
    by simp
  show ?thesis
    using none some sel rng by (simp add: Let_def)
qed

theorem selectCpuForBinding_index_witness:
  "os_read demo_os ''/proc/cpuinfo'' =
     Some (''processor : 0'' @ endl @ ''model name : cpu'' @ endl @ ''processor : 1'' @ endl) \<and>
   getCpuCount demo_os = 2 \<and>
   selectCpuForBinding demo_os (CgroupManager_new demo_os) = ''1'' \<and>
   getCpuCount (demo_os\<lparr>os_read := \<lambda>_. None\<rparr>) = - 1 \<and>
   selectCpuForBinding (demo_os\<lparr>os_read := \<lambda>_. None\<rparr>) (CgroupManager_new demo_os) = ''0''"
  using selectCpuForBinding_index
      [of demo_os "CgroupManager_new demo_os"
          "''processor : 0'' @ endl @ ''model name : cpu'' @ endl @ ''processor : 1'' @ endl"]
    selectCpuForBinding_index
      [of "demo_os\<lparr>os_read := \<lambda>_. None\<rparr>" "CgroupManager_new demo_os" "[]"]
  by (simp add: demo_os_def demo_files_def endl_def starts_with_def Let_def to_string_def
      CgroupManager_new_def)

text \<open>
  C8 as stated fails: the count is -1, not 1, for an unreadable \<open>/proc/cpuinfo\<close>, and 1,
  not 0, for a readable one without processor lines (the selector then names core 0, which
  is not an index in the empty range \<open>[0, 0)\<close>).
\<close>

theorem getCpuCount_fallbacks:
  "getCpuCount (demo_os\<lparr>os_read := \<lambda>_. None\<rparr>) = - 1 \<and>
   getCpuCount (demo_os\<lparr>os_read := \<lambda>_. None\<rparr>) \<noteq> 1 \<and>
   getCpuCount (demo_os\<lparr>os_read := \<lambda>_. Some []\<rparr>) = 1 \<and>
   getCpuCount (demo_os\<lparr>os_read := \<lambda>_. Some []\<rparr>) \<noteq> 0 \<and>
   selectCpuForBinding (demo_os\<lparr>os_read := \<lambda>_. Some []\<rparr>) (CgroupManager_new demo_os) = ''0''"
  by (simp add: getCpuCount_def selectCpuForBinding_def demo_os_def wrap32_def to_string_def)

section \<open>Run stage: how a run unfolds\<close>

lemma cg_log [simp]: "cg (log e w) = cg w"
  by (simp add: log_def)

lemma trace_log [simp]: "trace (log e w) = trace w @ [e]"
  by (simp add: log_def)

lemma cg_setMemoryLimit [simp]: "cg (snd (setMemoryLimit os n w)) = cg w"
  by (simp add: setMemoryLimit_def Let_def)

lemma cg_setCpuLimit [simp]: "cg (snd (setCpuLimit os w)) = cg w"
  by (simp add: setCpuLimit_def Let_def)

lemma cg_addProcess [simp]: "cg (snd (addProcess os pid w)) = cg w"
  by (simp add: addProcess_def Let_def)

lemma cg_forceCpuBinding [simp]: "cg (snd (forceCpuBinding os pid c w)) = cg w"
  by (simp add: forceCpuBinding_def)

lemma created_create: "fst (create os w) \<Longrightarrow> created (cg (snd (create os w)))"
  by (simp add: create_def Let_def split: if_splits)

lemma not_created_create:
  "\<not> fst (create os w) \<Longrightarrow> \<not> created (cg w) \<Longrightarrow> \<not> created (cg (snd (create os w)))"
  by (simp add: create_def Let_def split: if_splits)

lemma path_create [simp]: "cgroup_path (cg (snd (create os w))) = cgroup_path (cg w)"
  by (simp add: create_def Let_def)

lemma leave_created:
  "created (cg w) \<Longrightarrow> leave w r = (Returned r, trace w @ [Sys_rmdir (cgroup_path (cg w))])"
  by (simp add: leave_def cleanup_def)

lemma leave_not_created: "\<not> created (cg w) \<Longrightarrow> leave w r = (Returned r, trace w)"
  by (simp add: leave_def cleanup_def)

lemma fst_leave [simp]: "fst (leave w r) = Returned r"
  by (simp add: leave_def)

lemma getMemoryPeak_cg: "cg w = cg w' \<Longrightarrow> getMemoryPeak os w = getMemoryPeak os w'"
  by (simp add: getMemoryPeak_def)

lemma classify_keeps:
  "time_used (classify limits st err r) = time_used r"
  "mem_used (classify limits st err r) = mem_used r"
  "stdout_content (classify limits st err r) = stdout_content r"
  "output_len (classify limits st err r) = output_len r"
  "allocated_cpu (classify limits st err r) = allocated_cpu r"
  by (simp_all add: classify_def Let_def)

lemma classify_OK:
  assumes "status (classify limits st err r) = ''OK''" and "status r \<noteq> ''OK''"
  shows "exit_code (classify limits st err r) = 0 \<and> time_used r \<le> time_limit limits \<and>
         mem_used r \<le> memory_limit limits \<and> output_len r \<le> output_limit limits"
  using assms by (simp add: classify_def Let_def split: if_splits)

lemma classify_clean_exit:
  assumes "WIFEXITED st" and "WEXITSTATUS st = 0"
  shows "classify limits st err r =
           r\<lparr>exit_code := 0,
             status :=
               (if time_used r > time_limit limits then ''TLE''
                else if mem_used r > memory_limit limits then ''MLE''
                else if output_len r > output_limit limits then ''OLE''
                else ''OK'')\<rparr>"
  using assms by (simp add: classify_def Let_def)

lemma classify_signaled:
  assumes "WIFSIGNALED st"
  shows "exit_code (classify limits st err r) = 128 + WTERMSIG st \<and>
     (WTERMSIG st = SIGXCPU \<longrightarrow> status (classify limits st err r) = ''TLE'') \<and>
     (WTERMSIG st = SIGKILL \<longrightarrow>
        status (classify limits st err r) =
          (if mem_used r > memory_limit limits then ''MLE'' else ''TLE'')) \<and>
     (WTERMSIG st = SIGSEGV \<longrightarrow>
        status (classify limits st err r) = ''RE'' \<and>
        error_message (classify limits st err r) = ''Segmentation fault'') \<and>
     (WTERMSIG st = SIGFPE \<longrightarrow>
        status (classify limits st err r) = ''RE'' \<and>
        error_message (classify limits st err r) = ''Floating point exception'') \<and>
     (WTERMSIG st = SIGABRT \<longrightarrow>
        (if mem_used r > memory_limit limits
         then status (classify limits st err r) = ''MLE''
         else status (classify limits st err r) = ''RE'' \<and>
              error_message (classify limits st err r) = ''Program aborted'')) \<and>
     (WTERMSIG st \<noteq> SIGXCPU \<and> WTERMSIG st \<noteq> SIGKILL \<and> WTERMSIG st \<noteq> SIGSEGV \<and>
      WTERMSIG st \<noteq> SIGFPE \<and> WTERMSIG st \<noteq> SIGABRT \<longrightarrow>
        status (classify limits st err r) = ''RE'' \<and>
        error_message (classify limits st err r) =
          ''Program terminated by signal '' @ to_string (WTERMSIG st))"
proof -
  from assms have "\<not> WIFEXITED st"
    by (simp add: WIFSIGNALED_iff WIFEXITED_def)
  with assms show ?thesis
    by (simp add: classify_def Let_def SIGXCPU_def SIGKILL_def SIGSEGV_def SIGFPE_def SIGABRT_def)
qed


lemma run_reap_awaited:
  assumes "os_wait4 os = Some (st, rss)"
  shows "fst (run_reap os limits result w pid po pe outs) =
     Returned (classify limits st (snd outs)
       (result\<lparr>time_used := os_elapsed os,
          mem_used := (if getMemoryPeak os w > 0 then getMemoryPeak os w else wrap64 (rss * 1024)),
          stdout_content := fst outs,
          output_len := wrap32 (int (length (fst outs)))\<rparr>))"
proof -
  have "getMemoryPeak os (log a (log b (log c w))) = getMemoryPeak os w" for a b c
    by (rule getMemoryPeak_cg) simp
  with assms show ?thesis
    by (simp add: run_reap_def Let_def)
qed

lemma run_reap_failed:
  assumes "os_wait4 os = None"
  shows "fst (run_reap os limits result w pid po pe outs) =
     Returned (result\<lparr>error_message := ''Failed to wait for child process''\<rparr>)"
  using assms by (simp add: run_reap_def Let_def)

lemma run_parent_not_enrolled:
  assumes "\<not> fst (addProcess os pid w)" and "created (cg w)"
  shows "run_parent os limits result w pid po pe =
     (Returned (result\<lparr>error_message := ''Failed to add process to cgroup''\<rparr>),
      trace (snd (addProcess os pid w)) @
        [Sys_kill pid SIGKILL, Sys_waitpid pid, Sys_close (fst po), Sys_close (snd po),
         Sys_close (fst pe), Sys_close (snd pe), Sys_rmdir (cgroup_path (cg w))])"
proof -
  obtain ok w1 where a: "addProcess os pid w = (ok, w1)" by (cases "addProcess os pid w")
  with assms have ok: "\<not> ok" by simp
  from a have "cg w1 = cg w" using cg_addProcess [of os pid w] by simp
  with assms a ok show ?thesis
    by (simp add: run_parent_def leave_def cleanup_def)
qed

lemma run_parent_enrolled:
  assumes "fst (addProcess os pid w)"
      and "allocated_cpu result = [] \<or> \<not> isl (stoi (allocated_cpu result))"
  shows "\<exists>msg w'. cg w' = cg w \<and>
     run_parent os limits result w pid po pe =
       run_reap os limits (result\<lparr>error_message := msg\<rparr>) w' pid po pe
         (drain (os_drain os) ([], [], False, False))"
proof -
  obtain ok w1 where a: "addProcess os pid w = (ok, w1)" by (cases "addProcess os pid w")
  with assms have ok: "ok" by simp
  from a have c1: "cg w1 = cg w" using cg_addProcess [of os pid w] by simp
  have same: "result\<lparr>error_message := error_message result\<rparr> = result" by simp
  show ?thesis
  proof (cases "allocated_cpu result = []")
    case True
    with a ok have "run_parent os limits result w pid po pe =
        run_reap os limits (result\<lparr>error_message := error_message result\<rparr>)
          (log (Sys_close (snd pe)) (log (Sys_close (snd po)) w1)) pid po pe
          (drain (os_drain os) ([], [], False, False))"
      by (simp add: run_parent_def Let_def)
    moreover have "cg (log (Sys_close (snd pe)) (log (Sys_close (snd po)) w1)) = cg w"
      using c1 by simp
    ultimately show ?thesis by blast
  next
    case False
    with assms obtain cpu where s: "stoi (allocated_cpu result) = Inr cpu"
      by (cases "stoi (allocated_cpu result)") auto
    obtain b w2 where f: "forceCpuBinding os pid cpu w1 = (b, w2)"
      by (cases "forceCpuBinding os pid cpu w1")
    then have c2: "cg w2 = cg w" using cg_forceCpuBinding [of os pid cpu w1] c1 by simp
    have c3: "cg (log (Sys_close (snd pe)) (log (Sys_close (snd po)) w2)) = cg w"
      using c2 by simp
    show ?thesis
    proof (cases b)
      case True
      with a ok False s f have "run_parent os limits result w pid po pe =
          run_reap os limits (result\<lparr>error_message := error_message result\<rparr>)
            (log (Sys_close (snd pe)) (log (Sys_close (snd po)) w2)) pid po pe
            (drain (os_drain os) ([], [], False, False))"
        by (simp add: run_parent_def Let_def)
      with c3 show ?thesis by blast
    next
      case False
      with a ok \<open>allocated_cpu result \<noteq> []\<close> s f have "run_parent os limits result w pid po pe =
          run_reap os limits
            (result\<lparr>error_message := error_message result @ ''Warning: Failed to set CPU affinity; ''\<rparr>)
            (log (Sys_close (snd pe)) (log (Sys_close (snd po)) w2)) pid po pe
            (drain (os_drain os) ([], [], False, False))"
        by (simp add: run_parent_def Let_def)
      with c3 show ?thesis by blast
    qed
  qed
qed

lemma created_w_cpu: "cgroup_ready os limits \<Longrightarrow> created (cg (w_cpu os limits))"
  by (simp add: cgroup_ready_def w_cpu_def w_memory_def w_created_def created_create)

lemma path_w_cpu: "cgroup_path (cg (w_cpu os limits)) = cgroup_path (CgroupManager_new os)"
  by (simp add: w_cpu_def w_memory_def w_created_def w_new_def)

lemma runProgram_ready:
  assumes "cgroup_ready os limits"
  shows "runProgram os exe inp limits =
     run_fork os limits (fault_result [] (cpu_read os limits)) (w_cpu os limits)"
proof -
  obtain w1 where a: "create os (w_new os) = (True, w1)"
    using assms by (cases "create os (w_new os)") (simp add: cgroup_ready_def)
  then have w1: "w_created os = w1" by (simp add: w_created_def)
  obtain w2 where b: "setMemoryLimit os (memory_limit limits) w1 = (True, w2)"
    using assms w1 by (cases "setMemoryLimit os (memory_limit limits) w1") (simp add: cgroup_ready_def)
  then have w2: "w_memory os limits = w2" by (simp add: w_memory_def w1)
  obtain w3 where c: "setCpuLimit os w2 = (True, w3)"
    using assms w2 by (cases "setCpuLimit os w2") (simp add: cgroup_ready_def)
  then have w3: "w_cpu os limits = w3" by (simp add: w_cpu_def w2)
  from a b c show ?thesis
    by (simp add: runProgram_def Let_def w_new_def [symmetric] fault_result_def cpu_read_def w3)
qed


lemma runProgram_create_failed:
  assumes "\<not> fst (create os (w_new os))"
  shows "fst (runProgram os exe inp limits) = Returned (fault_result msg_create_failed [])"
proof -
  obtain w1 where a: "create os (w_new os) = (False, w1)"
    using assms by (cases "create os (w_new os)") simp
  then show ?thesis
    by (simp add: runProgram_def Let_def w_new_def [symmetric] fault_result_def)
qed

lemma runProgram_memory_failed:
  assumes "fst (create os (w_new os))"
      and "\<not> fst (setMemoryLimit os (memory_limit limits) (w_created os))"
  shows "fst (runProgram os exe inp limits) =
     Returned (fault_result ''Failed to set memory limit in cgroup'' [])"
proof -
  obtain w1 where a: "create os (w_new os) = (True, w1)"
    using assms by (cases "create os (w_new os)") simp
  then have w1: "w_created os = w1" by (simp add: w_created_def)
  obtain w2 where b: "setMemoryLimit os (memory_limit limits) w1 = (False, w2)"
    using assms w1 by (cases "setMemoryLimit os (memory_limit limits) w1") simp
  from a b show ?thesis
    by (simp add: runProgram_def Let_def w_new_def [symmetric] fault_result_def)
qed

lemma runProgram_cpu_failed:
  assumes "fst (create os (w_new os))"
      and "fst (setMemoryLimit os (memory_limit limits) (w_created os))"
      and "\<not> fst (setCpuLimit os (w_memory os limits))"
  shows "fst (runProgram os exe inp limits) =
     Returned (fault_result ''Failed to set CPU limit in cgroup'' [])"
proof -
  obtain w1 where a: "create os (w_new os) = (True, w1)"
    using assms by (cases "create os (w_new os)") simp
  then have w1: "w_created os = w1" by (simp add: w_created_def)
  obtain w2 where b: "setMemoryLimit os (memory_limit limits) w1 = (True, w2)"
    using assms w1 by (cases "setMemoryLimit os (memory_limit limits) w1") simp
  then have w2: "w_memory os limits = w2" by (simp add: w_memory_def w1)
  obtain w3 where c: "setCpuLimit os w2 = (False, w3)"
    using assms w2 by (cases "setCpuLimit os w2") simp
  from a b c show ?thesis
    by (simp add: runProgram_def Let_def w_new_def [symmetric] fault_result_def)
qed

lemma fault_result_message [simp]:
  "(fault_result m cpu)\<lparr>error_message := msg\<rparr> = fault_result msg cpu"
  by (simp add: fault_result_def)

lemma runProgram_pipe_failed:
  assumes "cgroup_ready os limits" and "os_pipe_out os = None \<or> os_pipe_err os = None"
  shows "fst (runProgram os exe inp limits) =
     Returned (fault_result ''Failed to create pipes'' (cpu_read os limits))"
  using assms(2)
  by (auto simp: runProgram_ready [OF assms(1)] run_fork_def split: option.splits)

lemma runProgram_fork_failed:
  assumes "cgroup_ready os limits" and "os_pipe_out os \<noteq> None" and "os_pipe_err os \<noteq> None"
      and "os_fork os = Fork_failed"
  shows "fst (runProgram os exe inp limits) =
     Returned (fault_result ''Failed to fork process'' (cpu_read os limits))"
  using assms(2-)
  by (auto simp: runProgram_ready [OF assms(1)] run_fork_def Let_def split: option.splits)

lemma runProgram_forked:
  assumes "child_forked os limits pid" and "os_pipe_out os = Some po" and "os_pipe_err os = Some pe"
  shows "runProgram os exe inp limits =
     run_parent os limits (fault_result [] (cpu_read os limits)) (w_forked os limits) pid po pe"
proof -
  from assms(1) have r: "cgroup_ready os limits" and f: "os_fork os = Fork_parent pid"
    by (simp_all add: child_forked_def)
  show ?thesis
    using assms(2,3) f
    by (simp add: runProgram_ready [OF r] run_fork_def Let_def w_forked_def)
qed

lemma created_w_forked: "cgroup_ready os limits \<Longrightarrow> created (cg (w_forked os limits))"
  by (simp add: w_forked_def created_w_cpu)

lemma runProgram_enroll_failed:
  assumes "child_forked os limits pid" and "os_pipe_out os = Some po" and "os_pipe_err os = Some pe"
      and "\<not> fst (addProcess os pid (w_forked os limits))"
  shows "runProgram os exe inp limits =
     (Returned (fault_result ''Failed to add process to cgroup'' (cpu_read os limits)),
      trace (snd (addProcess os pid (w_forked os limits))) @
        [Sys_kill pid SIGKILL, Sys_waitpid pid, Sys_close (fst po), Sys_close (snd po),
         Sys_close (fst pe), Sys_close (snd pe), Sys_rmdir (cgroup_path (CgroupManager_new os))])"
proof -
  from assms(1) have r: "cgroup_ready os limits" by (simp add: child_forked_def)
  have p: "cgroup_path (cg (w_forked os limits)) = cgroup_path (CgroupManager_new os)"
    by (simp add: w_forked_def path_w_cpu)
  show ?thesis
    using run_parent_not_enrolled [OF assms(4) created_w_forked [OF r],
        of limits "fault_result [] (cpu_read os limits)" po pe]
    by (simp add: runProgram_forked [OF assms(1-3)] p)
qed

lemma allocated_cpu_fault [simp]: "allocated_cpu (fault_result m cpu) = cpu"
  by (simp add: fault_result_def)

text \<open>Once the child is enrolled and the affinity step has not thrown, the run comes to the reap.\<close>

lemma runProgram_awaited:
  assumes "child_awaited os limits pid"
  shows "\<exists>msg w. runProgram os exe inp limits =
     run_reap os limits (fault_result msg (cpu_read os limits)) w pid
       (the (os_pipe_out os)) (the (os_pipe_err os)) (drain (os_drain os) ([], [], False, False))"
proof -
  from assms have f: "child_forked os limits pid"
    and e: "fst (addProcess os pid (w_forked os limits))"
    and c: "cpu_read os limits = [] \<or> \<not> isl (stoi (cpu_read os limits))"
    by (simp_all add: child_awaited_def child_enrolled_def)
  from f obtain po pe where p: "os_pipe_out os = Some po" "os_pipe_err os = Some pe"
    by (auto simp: child_forked_def)
  from run_parent_enrolled [OF e, of "fault_result [] (cpu_read os limits)" limits po pe] c
  obtain msg w' where
    "run_parent os limits (fault_result [] (cpu_read os limits)) (w_forked os limits) pid po pe =
       run_reap os limits (fault_result msg (cpu_read os limits)) w' pid po pe
         (drain (os_drain os) ([], [], False, False))"
    by auto
  then show ?thesis
    using p by (auto simp: runProgram_forked [OF f p])
qed

lemma runProgram_wait_failed:
  assumes "child_awaited os limits pid" and "os_wait4 os = None"
  shows "fst (runProgram os exe inp limits) =
     Returned (fault_result ''Failed to wait for child process'' (cpu_read os limits))"
proof -
  from runProgram_awaited [OF assms(1), of exe inp] obtain msg w where
    "runProgram os exe inp limits =
       run_reap os limits (fault_result msg (cpu_read os limits)) w pid
         (the (os_pipe_out os)) (the (os_pipe_err os)) (drain (os_drain os) ([], [], False, False))"
    by blast
  then show ?thesis
    by (simp add: run_reap_failed [OF assms(2)])
qed

lemma runProgram_classified:
  assumes "child_awaited os limits pid" and "os_wait4 os = Some (st, rss)"
  shows "\<exists>pre. status pre = ''RE'' \<and> time_used pre = os_elapsed os \<and>
     stdout_content pre = fst (drain (os_drain os) ([], [], False, False)) \<and>
     output_len pre = wrap32 (int (length (stdout_content pre))) \<and>
     allocated_cpu pre = cpu_read os limits \<and>
     fst (runProgram os exe inp limits) =
       Returned (classify limits st (snd (drain (os_drain os) ([], [], False, False))) pre)"
proof -
  from runProgram_awaited [OF assms(1), of exe inp] obtain msg w where
    "runProgram os exe inp limits =
       run_reap os limits (fault_result msg (cpu_read os limits)) w pid
         (the (os_pipe_out os)) (the (os_pipe_err os)) (drain (os_drain os) ([], [], False, False))"
    by blast
  then have "fst (runProgram os exe inp limits) =
      Returned (classify limits st (snd (drain (os_drain os) ([], [], False, False)))
        ((fault_result msg (cpu_read os limits))
           \<lparr>time_used := os_elapsed os,
            mem_used := (if getMemoryPeak os w > 0 then getMemoryPeak os w else wrap64 (rss * 1024)),
            stdout_content := fst (drain (os_drain os) ([], [], False, False)),
            output_len := wrap32 (int (length (fst (drain (os_drain os) ([], [], False, False)))))\<rparr>))"
    by (simp add: run_reap_awaited [OF assms(2)])
  then show ?thesis
    by (intro exI [where x = "(fault_result msg (cpu_read os limits))
           \<lparr>time_used := os_elapsed os,
            mem_used := (if getMemoryPeak os w > 0 then getMemoryPeak os w else wrap64 (rss * 1024)),
            stdout_content := fst (drain (os_drain os) ([], [], False, False)),
            output_len := wrap32 (int (length (fst (drain (os_drain os) ([], [], False, False)))))\<rparr>"])
      (simp add: fault_result_def)
qed

section \<open>Run stage: every path of a run\<close>

lemma run_reap_cases:
  "(\<exists>m. fst (run_reap os limits result w pid po pe outs) = Returned (result\<lparr>error_message := m\<rparr>)) \<or>
   (\<exists>st rss mm. os_wait4 os = Some (st, rss) \<and>
      fst (run_reap os limits result w pid po pe outs) =
        Returned (classify limits st (snd outs)
          (result\<lparr>time_used := os_elapsed os, mem_used := mm, stdout_content := fst outs,
             output_len := wrap32 (int (length (fst outs)))\<rparr>)))"
proof (cases "os_wait4 os")
  case None
  then show ?thesis using run_reap_failed [of os limits result w pid po pe outs] by blast
next
  case (Some a)
  then obtain st rss where "os_wait4 os = Some (st, rss)" by (cases a) simp
  then show ?thesis using run_reap_awaited [of os st rss limits result w pid po pe outs] by blast
qed

lemma run_parent_cases:
  "(\<exists>m. fst (run_parent os limits result w pid po pe) = Returned (result\<lparr>error_message := m\<rparr>)) \<or>
   (\<exists>e. fst (run_parent os limits result w pid po pe) = Threw e) \<or>
   (\<exists>st rss mm m. os_wait4 os = Some (st, rss) \<and>
      fst (run_parent os limits result w pid po pe) =
        Returned (classify limits st (snd (drain (os_drain os) ([], [], False, False)))
          (result\<lparr>error_message := m, time_used := os_elapsed os, mem_used := mm,
             stdout_content := fst (drain (os_drain os) ([], [], False, False)),
             output_len := wrap32 (int (length (fst (drain (os_drain os) ([], [], False, False)))))\<rparr>)))"
proof (cases "fst (addProcess os pid w)")
  case False
  then obtain w1 where "addProcess os pid w = (False, w1)" by (cases "addProcess os pid w") simp
  then have "fst (run_parent os limits result w pid po pe) =
      Returned (result\<lparr>error_message := ''Failed to add process to cgroup''\<rparr>)"
    by (simp add: run_parent_def)
  then show ?thesis by blast
next
  case True
  then obtain w1 where a: "addProcess os pid w = (True, w1)" by (cases "addProcess os pid w") simp
  show ?thesis
  proof (cases "allocated_cpu result = [] \<or> \<not> isl (stoi (allocated_cpu result))")
    case False
    then obtain e where "stoi (allocated_cpu result) = Inl e" "allocated_cpu result \<noteq> []"
      by (cases "stoi (allocated_cpu result)") auto
    with a have "fst (run_parent os limits result w pid po pe) = Threw e"
      by (simp add: run_parent_def Let_def)
    then show ?thesis by blast
  next
    case ok: True
    from run_parent_enrolled [OF True ok, of limits po pe] obtain msg w' where
      r: "run_parent os limits result w pid po pe =
            run_reap os limits (result\<lparr>error_message := msg\<rparr>) w' pid po pe
              (drain (os_drain os) ([], [], False, False))"
      by blast
    let ?outs = "drain (os_drain os) ([], [], False, False)"
    consider (failed) m where
        "fst (run_reap os limits (result\<lparr>error_message := msg\<rparr>) w' pid po pe ?outs) =
           Returned (result\<lparr>error_message := msg, error_message := m\<rparr>)"
      | (reaped) st rss mm where "os_wait4 os = Some (st, rss)"
        "fst (run_reap os limits (result\<lparr>error_message := msg\<rparr>) w' pid po pe ?outs) =
           Returned (classify limits st (snd ?outs)
             (result\<lparr>error_message := msg, time_used := os_elapsed os, mem_used := mm,
                stdout_content := fst ?outs, output_len := wrap32 (int (length (fst ?outs)))\<rparr>))"
      using run_reap_cases [of os limits "result\<lparr>error_message := msg\<rparr>" w' pid po pe ?outs]
      by blast
    then show ?thesis
    proof cases
      case failed
      then have "fst (run_parent os limits result w pid po pe) =
          Returned (result\<lparr>error_message := m\<rparr>)"
        by (simp add: r)
      then show ?thesis by blast
    next
      case reaped
      from reaped(2) have "fst (run_parent os limits result w pid po pe) =
          Returned (classify limits st (snd ?outs)
             (result\<lparr>error_message := msg, time_used := os_elapsed os, mem_used := mm,
                stdout_content := fst ?outs, output_len := wrap32 (int (length (fst ?outs)))\<rparr>))"
        by (simp only: r)
      with reaped(1) show ?thesis by blast
    qed
  qed
qed

lemma run_fork_cases:
  "(\<exists>m. fst (run_fork os limits result w) = Returned (result\<lparr>error_message := m\<rparr>)) \<or>
   (\<exists>e. fst (run_fork os limits result w) = Threw e) \<or>
   fst (run_fork os limits result w) = In_child \<or>
   (\<exists>st rss mm m. os_wait4 os = Some (st, rss) \<and>
      fst (run_fork os limits result w) =
        Returned (classify limits st (snd (drain (os_drain os) ([], [], False, False)))
          (result\<lparr>error_message := m, time_used := os_elapsed os, mem_used := mm,
             stdout_content := fst (drain (os_drain os) ([], [], False, False)),
             output_len := wrap32 (int (length (fst (drain (os_drain os) ([], [], False, False)))))\<rparr>)))"
proof (cases "os_pipe_out os")
  case None
  then have "fst (run_fork os limits result w) =
      Returned (result\<lparr>error_message := ''Failed to create pipes''\<rparr>)"
    by (simp add: run_fork_def)
  then show ?thesis by blast
next
  case po: (Some po)
  show ?thesis
  proof (cases "os_pipe_err os")
    case None
    with po have "fst (run_fork os limits result w) =
        Returned (result\<lparr>error_message := ''Failed to create pipes''\<rparr>)"
      by (simp add: run_fork_def)
    then show ?thesis by blast
  next
    case pe: (Some pe)
    show ?thesis
    proof (cases "os_fork os")
      case Fork_failed
      with po pe have "fst (run_fork os limits result w) =
          Returned (result\<lparr>error_message := ''Failed to fork process''\<rparr>)"
        by (simp add: run_fork_def Let_def)
      then show ?thesis by blast
    next
      case Fork_child
      with po pe show ?thesis by (simp add: run_fork_def Let_def)
    next
      case (Fork_parent pid)
      with po pe have "run_fork os limits result w =
          run_parent os limits result (log Sys_fork (log Sys_pipe (log Sys_pipe w))) pid po pe"
        by (simp add: run_fork_def Let_def)
      then show ?thesis
        using run_parent_cases [of os limits result "log Sys_fork (log Sys_pipe (log Sys_pipe w))" pid po pe]
        by (simp only:) blast
    qed
  qed
qed

lemma runProgram_cases:
  "(\<exists>m cpu. fst (runProgram os exe inp limits) = Returned (fault_result m cpu)) \<or>
   (\<exists>e. fst (runProgram os exe inp limits) = Threw e) \<or>
   fst (runProgram os exe inp limits) = In_child \<or>
   (\<exists>st rss mm m cpu. os_wait4 os = Some (st, rss) \<and>
      fst (runProgram os exe inp limits) =
        Returned (classify limits st (snd (drain (os_drain os) ([], [], False, False)))
          ((fault_result m cpu)\<lparr>time_used := os_elapsed os, mem_used := mm,
             stdout_content := fst (drain (os_drain os) ([], [], False, False)),
             output_len := wrap32 (int (length (fst (drain (os_drain os) ([], [], False, False)))))\<rparr>)))"
proof (cases "cgroup_ready os limits")
  case False
  then consider "\<not> fst (create os (w_new os))"
    | "fst (create os (w_new os))" "\<not> fst (setMemoryLimit os (memory_limit limits) (w_created os))"
    | "fst (create os (w_new os))" "fst (setMemoryLimit os (memory_limit limits) (w_created os))"
      "\<not> fst (setCpuLimit os (w_memory os limits))"
    by (auto simp: cgroup_ready_def)
  then show ?thesis
  proof cases
    case 1
    from runProgram_create_failed [OF 1] show ?thesis by blast
  next
    case 2
    from runProgram_memory_failed [OF 2] show ?thesis by blast
  next
    case 3
    from runProgram_cpu_failed [OF 3] show ?thesis by blast
  qed
next
  case True
  from run_fork_cases [of os limits "fault_result [] (cpu_read os limits)" "w_cpu os limits"]
  show ?thesis
    unfolding runProgram_ready [OF True] by (simp only: fault_result_message) blast
qed


section \<open>The sample run\<close>

lemmas run_defs =
  runProgram_def run_fork_def run_parent_def run_reap_def classify_def leave_def cleanup_def
  create_def setMemoryLimit_def setCpuLimit_def addProcess_def forceCpuBinding_def
  getAllocatedCpu_def getMemoryPeak_def selectCpuForBinding_def getCpuCount_def
  CgroupManager_new_def log_def endl_def first_line_def starts_with_def to_string_def
  stoi_def is_space_def is_digit_def digit_val_def decimal_def c_str_def wrap32_def wrap64_def
  WIFEXITED_def WIFSIGNALED_def WTERMSIG_def WEXITSTATUS_def wrap8_def
  SIGABRT_def SIGFPE_def SIGKILL_def SIGSEGV_def SIGXCPU_def

lemma demo_run:
  "fst (runProgram demo_os ''a.out'' ''input.txt'' demo_limits) =
     Returned \<lparr>status = ''OK'', time_used = 12, mem_used = 2097152, exit_code = 0,
        error_message = [], stdout_content = ''hello'', output_len = 5, allocated_cpu = ''1''\<rparr>"
  by (simp add: run_defs demo_os_def demo_files_def demo_limits_def Let_def)

lemma demo_trace:
  "snd (runProgram demo_os ''a.out'' ''input.txt'' demo_limits) =
     [Sys_mkdir ''/sys/fs/cgroup/judge_123456'',
      Sys_write ''/sys/fs/cgroup/judge_123456/memory.max'' (''67108864'' @ endl),
      Sys_write ''/sys/fs/cgroup/cgroup.subtree_control'' (''+cpuset'' @ endl),
      Sys_write ''/sys/fs/cgroup/judge_123456/cpuset.cpus'' (''1'' @ endl),
      Sys_write ''/sys/fs/cgroup/judge_123456/cpuset.mems'' (''0'' @ endl),
      Sys_pipe, Sys_pipe, Sys_fork,
      Sys_write ''/sys/fs/cgroup/judge_123456/cgroup.procs'' (''4242'' @ endl),
      Sys_setaffinity 4242 1, Sys_close 4, Sys_close 6, Sys_close 3, Sys_close 5,
      Sys_wait4 4242, Sys_rmdir ''/sys/fs/cgroup/judge_123456'']"
  by (simp add: run_defs demo_os_def demo_files_def demo_limits_def Let_def)


lemmas path_defs =
  child_awaited_def child_enrolled_def child_forked_def cgroup_ready_def w_forked_def
  w_cpu_def w_memory_def w_created_def w_new_def cpu_read_def

lemma demo_awaited:
  "child_awaited (demo_os\<lparr>os_drain := d, os_wait4 := x, os_elapsed := t\<rparr>) limits 4242"
  by (simp add: path_defs run_defs demo_os_def demo_files_def Let_def)

lemma demo_awaited_wait4:
  "child_awaited (demo_os\<lparr>os_wait4 := x\<rparr>) limits 4242"
  by (simp add: path_defs run_defs demo_os_def demo_files_def Let_def)

lemma demo_awaited_elapsed:
  "child_awaited (demo_os\<lparr>os_elapsed := t\<rparr>) limits 4242"
  by (simp add: path_defs run_defs demo_os_def demo_files_def Let_def)

section \<open>Verdicts\<close>

text \<open>
  C2. When the child was reaped and its wait status says it was terminated by a signal,
  \<open>runProgram\<close> returns a result whose \<open>exit_code\<close> is 128 plus the signal number, and
  the verdict follows the signal: SIGXCPU gives TLE; SIGKILL gives MLE when \<open>mem_used\<close>
  exceeds \<open>memory_limit\<close> and TLE otherwise; SIGSEGV gives RE with "Segmentation fault";
  SIGFPE gives RE with "Floating point exception"; SIGABRT gives MLE when \<open>mem_used\<close>
  exceeds \<open>memory_limit\<close> and RE with "Program aborted" otherwise; any other signal gives
  RE with "Program terminated by signal N".
\<close>

theorem signaled_child_verdict:
  assumes "child_awaited os limits pid" and "os_wait4 os = Some (st, rss)" and "WIFSIGNALED st"
  shows "\<exists>r. fst (runProgram os exe inp limits) = Returned r \<and>
     exit_code r = 128 + WTERMSIG st \<and>
     (WTERMSIG st = SIGXCPU \<longrightarrow> status r = ''TLE'') \<and>
     (WTERMSIG st = SIGKILL \<longrightarrow>
        status r = (if mem_used r > memory_limit limits then ''MLE'' else ''TLE'')) \<and>
     (WTERMSIG st = SIGSEGV \<longrightarrow> status r = ''RE'' \<and> error_message r = ''Segmentation fault'') \<and>
     (WTERMSIG st = SIGFPE \<longrightarrow>
        status r = ''RE'' \<and> error_message r = ''Floating point exception'') \<and>
     (WTERMSIG st = SIGABRT \<longrightarrow>
        (if mem_used r > memory_limit limits then status r = ''MLE''
         else status r = ''RE'' \<and> error_message r = ''Program aborted'')) \<and>
     (WTERMSIG st \<noteq> SIGXCPU \<and> WTERMSIG st \<noteq> SIGKILL \<and> WTERMSIG st \<noteq> SIGSEGV \<and>
      WTERMSIG st \<noteq> SIGFPE \<and> WTERMSIG st \<noteq> SIGABRT \<longrightarrow>
        status r = ''RE'' \<and>
        error_message r = ''Program terminated by signal '' @ to_string (WTERMSIG st))"
proof -
  from runProgram_classified [OF assms(1,2), of exe inp] obtain pre where
    run: "fst (runProgram os exe inp limits) =
       Returned (classify limits st (snd (drain (os_drain os) ([], [], False, False))) pre)"
    by blast
  show ?thesis
    using classify_signaled [OF assms(3), of limits "snd (drain (os_drain os) ([], [], False, False))" pre]
    unfolding run by (simp only: classify_keeps outcome.inject simp_thms ex_simps) blast
qed


theorem signaled_child_verdict_witness:
  "child_awaited (demo_os\<lparr>os_wait4 := Some (11, 1500)\<rparr>) demo_limits 4242 \<and>
   os_wait4 (demo_os\<lparr>os_wait4 := Some (11, 1500)\<rparr>) = Some (11, 1500) \<and>
   WIFSIGNALED 11 \<and>
   (\<exists>r. fst (runProgram (demo_os\<lparr>os_wait4 := Some (11, 1500)\<rparr>) ''a.out'' ''input.txt'' demo_limits) =
          Returned r \<and>
        exit_code r = 139 \<and> status r = ''RE'' \<and> error_message r = ''Segmentation fault'')"
proof -
  let ?os = "demo_os\<lparr>os_wait4 := Some (11, 1500)\<rparr>"
  have a: "child_awaited ?os demo_limits 4242" by (rule demo_awaited_wait4)
  have b: "os_wait4 ?os = Some (11, 1500)" by simp
  have c: "WIFSIGNALED 11" by (simp add: WIFSIGNALED_def wrap8_def)
  have d: "WTERMSIG 11 = SIGSEGV" "WTERMSIG 11 = 11" by (simp_all add: WTERMSIG_def SIGSEGV_def)
  from signaled_child_verdict [OF a b c, of "''a.out''" "''input.txt''"] d
  have "\<exists>r. fst (runProgram ?os ''a.out'' ''input.txt'' demo_limits) = Returned r \<and>
        exit_code r = 139 \<and> status r = ''RE'' \<and> error_message r = ''Segmentation fault''"
    by auto
  with a b c show ?thesis by blast
qed

text \<open>
  C4. When the child was reaped and exited normally with code 0, the verdict is decided by
  strict comparisons in the order TLE (\<open>time_used > time_limit\<close>), MLE
  (\<open>mem_used > memory_limit\<close>), OLE (\<open>output_len > output_limit\<close>), else OK; a run whose
  \<open>time_used\<close> equals \<open>time_limit\<close>, with memory and output within bounds, is OK.
\<close>

theorem clean_exit_verdict:
  assumes "child_awaited os limits pid" and "os_wait4 os = Some (st, rss)"
      and "WIFEXITED st" and "WEXITSTATUS st = 0"
  shows "\<exists>r. fst (runProgram os exe inp limits) = Returned r \<and>
     exit_code r = 0 \<and> time_used r = os_elapsed os \<and>
     status r =
       (if time_used r > time_limit limits then ''TLE''
        else if mem_used r > memory_limit limits then ''MLE''
        else if output_len r > output_limit limits then ''OLE''
        else ''OK'') \<and>
     (time_used r = time_limit limits \<and> mem_used r \<le> memory_limit limits \<and>
      output_len r \<le> output_limit limits \<longrightarrow> status r = ''OK'')"
proof -
  from runProgram_classified [OF assms(1,2), of exe inp] obtain pre where
    pre: "time_used pre = os_elapsed os"
    and run: "fst (runProgram os exe inp limits) =
       Returned (classify limits st (snd (drain (os_drain os) ([], [], False, False))) pre)"
    by blast
  let ?r = "classify limits st (snd (drain (os_drain os) ([], [], False, False))) pre"
  have eq: "?r = pre\<lparr>exit_code := 0,
             status :=
               (if time_used pre > time_limit limits then ''TLE''
                else if mem_used pre > memory_limit limits then ''MLE''
                else if output_len pre > output_limit limits then ''OLE''
                else ''OK'')\<rparr>"
    by (rule classify_clean_exit [OF assms(3,4)])
  have "exit_code ?r = 0 \<and> time_used ?r = os_elapsed os \<and>
     status ?r =
       (if time_used ?r > time_limit limits then ''TLE''
        else if mem_used ?r > memory_limit limits then ''MLE''
        else if output_len ?r > output_limit limits then ''OLE''
        else ''OK'') \<and>
     (time_used ?r = time_limit limits \<and> mem_used ?r \<le> memory_limit limits \<and>
      output_len ?r \<le> output_limit limits \<longrightarrow> status ?r = ''OK'')"
    unfolding eq using pre by simp
  with run show ?thesis by blast
qed

theorem clean_exit_verdict_witness:
  "child_awaited (demo_os\<lparr>os_elapsed := 1000\<rparr>) demo_limits 4242 \<and>
   os_wait4 (demo_os\<lparr>os_elapsed := 1000\<rparr>) = Some (0, 1500) \<and>
   WIFEXITED 0 \<and> WEXITSTATUS 0 = 0 \<and>
   (\<exists>r. fst (runProgram (demo_os\<lparr>os_elapsed := 1000\<rparr>) ''a.out'' ''input.txt'' demo_limits) =
          Returned r \<and>
        time_used r = time_limit demo_limits \<and> status r = ''OK'')"
proof -
  let ?os = "demo_os\<lparr>os_elapsed := 1000\<rparr>"
  have a: "child_awaited ?os demo_limits 4242" by (rule demo_awaited_elapsed)
  have b: "os_wait4 ?os = Some (0, 1500)" by (simp add: demo_os_def)
  have c: "WIFEXITED 0" by (simp add: WIFEXITED_def WTERMSIG_def)
  have d: "WEXITSTATUS 0 = 0" by (simp add: WEXITSTATUS_def)
  have run: "fst (runProgram ?os ''a.out'' ''input.txt'' demo_limits) =
     Returned \<lparr>status = ''OK'', time_used = 1000, mem_used = 2097152, exit_code = 0,
        error_message = [], stdout_content = ''hello'', output_len = 5, allocated_cpu = ''1''\<rparr>"
    by (simp add: run_defs demo_os_def demo_files_def demo_limits_def Let_def)
  from clean_exit_verdict [OF a b c d, of "''a.out''" "''input.txt''"]
  have "\<exists>r. fst (runProgram ?os ''a.out'' ''input.txt'' demo_limits) = Returned r \<and>
        time_used r = time_limit demo_limits \<and> status r = ''OK''"
    unfolding run by (simp add: demo_limits_def)
  with a b c d show ?thesis by blast
qed

text \<open>
  C3. Every result that \<open>runProgram\<close> returns with status OK has \<open>exit_code = 0\<close>,
  \<open>time_used \<le> time_limit\<close>, \<open>mem_used \<le> memory_limit\<close> and
  \<open>output_len \<le> output_limit\<close>.
\<close>

theorem status_OK_within_limits:
  assumes "runProgram os exe inp limits = (Returned r, tr)" and "status r = ''OK''"
  shows "exit_code r = 0 \<and> time_used r \<le> time_limit limits \<and>
         mem_used r \<le> memory_limit limits \<and> output_len r \<le> output_limit limits"
proof -
  from assms(1) have r: "fst (runProgram os exe inp limits) = Returned r" by simp
  let ?outs = "drain (os_drain os) ([], [], False, False)"
  from runProgram_cases [of os exe inp limits] r
  consider (fault) m cpu where "r = fault_result m cpu"
    | (classified) st mm m cpu where
        "r = classify limits st (snd ?outs)
           ((fault_result m cpu)\<lparr>time_used := os_elapsed os, mem_used := mm,
              stdout_content := fst ?outs, output_len := wrap32 (int (length (fst ?outs)))\<rparr>)"
    by auto
  then show ?thesis
  proof cases
    case fault
    with assms(2) show ?thesis by (simp add: fault_result_def)
  next
    case classified
    let ?pre = "(fault_result m cpu)\<lparr>time_used := os_elapsed os, mem_used := mm,
              stdout_content := fst ?outs, output_len := wrap32 (int (length (fst ?outs)))\<rparr>"
    have ne: "status ?pre \<noteq> ''OK''" by (simp add: fault_result_def)
    from assms(2) classified have ok: "status (classify limits st (snd ?outs) ?pre) = ''OK''"
      by simp
    from classify_OK [OF ok ne] classify_keeps [of limits st "snd ?outs" ?pre]
    show ?thesis unfolding classified by simp
  qed
qed

theorem status_OK_within_limits_witness:
  "status \<lparr>status = ''OK'', time_used = 12, mem_used = 2097152, exit_code = 0,
        error_message = [], stdout_content = ''hello'', output_len = 5, allocated_cpu = ''1''\<rparr> = ''OK'' \<and>
   fst (runProgram demo_os ''a.out'' ''input.txt'' demo_limits) =
     Returned \<lparr>status = ''OK'', time_used = 12, mem_used = 2097152, exit_code = 0,
        error_message = [], stdout_content = ''hello'', output_len = 5, allocated_cpu = ''1''\<rparr> \<and>
   (12 :: int) \<le> time_limit demo_limits \<and> (2097152 :: int) \<le> memory_limit demo_limits \<and>
   (5 :: int) \<le> output_limit demo_limits"
proof -
  let ?r = "\<lparr>status = ''OK'', time_used = 12, mem_used = 2097152, exit_code = 0,
        error_message = [], stdout_content = ''hello'', output_len = 5, allocated_cpu = ''1''\<rparr>"
  have eq: "runProgram demo_os ''a.out'' ''input.txt'' demo_limits =
      (Returned ?r, snd (runProgram demo_os ''a.out'' ''input.txt'' demo_limits))"
    using demo_run by (simp add: prod_eq_iff)
  have ok: "status ?r = ''OK''" by simp
  from status_OK_within_limits [OF eq ok] demo_run ok show ?thesis by simp
qed

section \<open>Captured output\<close>

lemma c_str_plain:
  assumes "length c \<le> 4095" and "CHR 0x00 \<notin> set c"
  shows "c_str c = c"
proof -
  from assms(2) have "takeWhile (\<lambda>x. x \<noteq> CHR 0x00) c = c"
    by (intro takeWhile_eq_all_conv [THEN iffD2]) auto
  with assms(1) show ?thesis by (simp add: c_str_def)
qed

lemma drain_stdout_done: "fst (drain es (out, err, True, ed)) = out"
  by (induction es arbitrary: err ed) (simp_all add: Let_def split: prod.splits)

lemma drain_stdout_written:
  assumes "\<forall>e\<in>set es. length (out_read e) \<le> 4095 \<and> CHR 0x00 \<notin> set (out_read e)"
  shows "fst (drain es (out, err, False, ed)) = out @ stdout_written es"
  using assms
proof (induction es arbitrary: out err ed)
  case Nil
  then show ?case by simp
next
  case (Cons e es)
  from Cons.prems have c: "c_str (out_read e) = out_read e"
    by (simp add: c_str_plain)
  from Cons.prems have rest: "\<forall>e\<in>set es. length (out_read e) \<le> 4095 \<and> CHR 0x00 \<notin> set (out_read e)"
    by simp
  show ?case
  proof (cases "out_ready e")
    case False
    then show ?thesis
      using Cons.IH [OF rest] by (simp add: Let_def split: prod.splits)
  next
    case ready: True
    show ?thesis
    proof (cases "out_read e = []")
      case True
      with ready show ?thesis
        using drain_stdout_done by (simp add: Let_def split: prod.splits)
    next
      case False
      with ready c show ?thesis
        using Cons.IH [OF rest] by (simp add: Let_def split: prod.splits)
    qed
  qed
qed

lemma runProgram_in_child:
  assumes "cgroup_ready os limits" and "os_pipe_out os \<noteq> None" and "os_pipe_err os \<noteq> None"
      and "os_fork os = Fork_child"
  shows "fst (runProgram os exe inp limits) = In_child"
  using assms(2-)
  by (auto simp: runProgram_ready [OF assms(1)] run_fork_def Let_def split: option.splits)

lemma runProgram_threw:
  assumes "child_enrolled os limits pid" and "cpu_read os limits \<noteq> []"
      and "stoi (cpu_read os limits) = Inl e"
  shows "fst (runProgram os exe inp limits) = Threw e"
proof -
  from assms(1) have f: "child_forked os limits pid"
    and a: "fst (addProcess os pid (w_forked os limits))"
    by (simp_all add: child_enrolled_def)
  from f obtain po pe where p: "os_pipe_out os = Some po" "os_pipe_err os = Some pe"
    by (auto simp: child_forked_def)
  from a obtain w1 where "addProcess os pid (w_forked os limits) = (True, w1)"
    by (cases "addProcess os pid (w_forked os limits)") simp
  with assms(2,3) show ?thesis
    by (simp add: runProgram_forked [OF f p] run_parent_def Let_def)
qed

text \<open>A run that returns a result without having reaped the child returns a fault result.\<close>

lemma not_reaped_fault:
  assumes "fst (runProgram os exe inp limits) = Returned r" and "\<not> child_reaped os limits"
  shows "\<exists>m cpu. r = fault_result m cpu"
proof (cases "cgroup_ready os limits")
  case False
  then consider "\<not> fst (create os (w_new os))"
    | "fst (create os (w_new os))" "\<not> fst (setMemoryLimit os (memory_limit limits) (w_created os))"
    | "fst (create os (w_new os))" "fst (setMemoryLimit os (memory_limit limits) (w_created os))"
      "\<not> fst (setCpuLimit os (w_memory os limits))"
    by (auto simp: cgroup_ready_def)
  then show ?thesis
  proof cases
    case 1
    from runProgram_create_failed [OF 1, of exe inp limits] assms(1) show ?thesis by auto
  next
    case 2
    from runProgram_memory_failed [OF 2, of exe inp] assms(1) show ?thesis by auto
  next
    case 3
    from runProgram_cpu_failed [OF 3, of exe inp] assms(1) show ?thesis by auto
  qed
next
  case ready: True
  show ?thesis
  proof (cases "os_pipe_out os = None \<or> os_pipe_err os = None")
    case True
    from runProgram_pipe_failed [OF ready True, of exe inp] assms(1) show ?thesis by auto
  next
    case False
    then have p: "os_pipe_out os \<noteq> None" "os_pipe_err os \<noteq> None" by simp_all
    show ?thesis
    proof (cases "os_fork os")
      case Fork_failed
      from runProgram_fork_failed [OF ready p Fork_failed, of exe inp] assms(1)
      show ?thesis by auto
    next
      case Fork_child
      from runProgram_in_child [OF ready p Fork_child, of exe inp] assms(1)
      show ?thesis by simp
    next
      case (Fork_parent pid)
      with ready p have f: "child_forked os limits pid" by (simp add: child_forked_def)
      from p obtain po pe where pp: "os_pipe_out os = Some po" "os_pipe_err os = Some pe"
        by auto
      show ?thesis
      proof (cases "fst (addProcess os pid (w_forked os limits))")
        case False
        from runProgram_enroll_failed [OF f pp False, of exe inp] assms(1)
        show ?thesis by auto
      next
        case True
        with f have en: "child_enrolled os limits pid" by (simp add: child_enrolled_def)
        show ?thesis
        proof (cases "cpu_read os limits = [] \<or> \<not> isl (stoi (cpu_read os limits))")
          case False
          then obtain e where "cpu_read os limits \<noteq> []" "stoi (cpu_read os limits) = Inl e"
            by (cases "stoi (cpu_read os limits)") auto
          from runProgram_threw [OF en this, of exe inp] assms(1) show ?thesis by simp
        next
          case True
          with en have aw: "child_awaited os limits pid" by (simp add: child_awaited_def)
          with assms(2) Fork_parent have "os_wait4 os = None"
            by (cases "os_wait4 os") (auto simp: child_reaped_def)
          from runProgram_wait_failed [OF aw this, of exe inp] assms(1) show ?thesis by auto
        qed
      qed
    qed
  qed
qed

text \<open>
  C6 (as amended). When the child has been reaped, \<open>stdout_content\<close> is everything the
  supervisor read from the standard output pipe, whatever the limits are: nothing cuts
  it at \<open>output_limit\<close> (stated for output free of NUL bytes, read in chunks of at most
  4095 bytes as \<open>read\<close> delivers them). When the run returns without having reaped the
  child, \<open>stdout_content\<close> is empty and \<open>output_len\<close> is 0. \<open>output_len\<close> is the byte
  length of \<open>stdout_content\<close> whenever that is below \<open>2^31\<close>.
\<close>

theorem stdout_content_uncapped:
  assumes "runProgram os exe inp limits = (Returned r, tr)"
  shows "(child_reaped os limits \<and>
          (\<forall>e\<in>set (os_drain os). length (out_read e) \<le> 4095 \<and> CHR 0x00 \<notin> set (out_read e)) \<longrightarrow>
            stdout_content r = stdout_written (os_drain os)) \<and>
         (\<not> child_reaped os limits \<longrightarrow> stdout_content r = [] \<and> output_len r = 0) \<and>
         (length (stdout_content r) < 2147483648 \<longrightarrow>
            output_len r = int (length (stdout_content r)))"
proof -
  let ?outs = "drain (os_drain os) ([], [], False, False)"
  from assms have r: "fst (runProgram os exe inp limits) = Returned r" by simp
  from runProgram_cases [of os exe inp limits] r
  consider (fault) m cpu where "r = fault_result m cpu"
    | (classified) st mm m cpu where
        "r = classify limits st (snd ?outs)
           ((fault_result m cpu)\<lparr>time_used := os_elapsed os, mem_used := mm,
              stdout_content := fst ?outs, output_len := wrap32 (int (length (fst ?outs)))\<rparr>)"
    by auto
  then have len: "output_len r = wrap32 (int (length (stdout_content r)))"
  proof cases
    case fault
    then show ?thesis by (simp add: fault_result_def wrap32_def)
  next
    case classified
    then show ?thesis by (simp add: classify_keeps)
  qed
  have small: "output_len r = int (length (stdout_content r))"
    if "length (stdout_content r) < 2147483648"
  proof -
    from that have "wrap32 (int (length (stdout_content r))) = int (length (stdout_content r))"
      by (simp add: wrap32_def)
    with len show ?thesis by simp
  qed
  have reaped: "stdout_content r = stdout_written (os_drain os)"
    if "child_reaped os limits"
       "\<forall>e\<in>set (os_drain os). length (out_read e) \<le> 4095 \<and> CHR 0x00 \<notin> set (out_read e)"
  proof -
    from that(1) obtain pid where aw: "child_awaited os limits pid" and "os_wait4 os \<noteq> None"
      by (auto simp: child_reaped_def split: fork_result.splits)
    then obtain st rss where w: "os_wait4 os = Some (st, rss)" by auto
    from runProgram_classified [OF aw w, of exe inp] r obtain pre where
      "stdout_content pre = fst ?outs" "r = classify limits st (snd ?outs) pre"
      by auto
    then have "stdout_content r = fst ?outs" by (simp add: classify_keeps)
    with drain_stdout_written [OF that(2), of "[]" "[]" False] show ?thesis by simp
  qed
  have early: "stdout_content r = [] \<and> output_len r = 0" if "\<not> child_reaped os limits"
    using not_reaped_fault [OF r that] by (auto simp: fault_result_def)
  from small reaped early show ?thesis by blast
qed

theorem stdout_content_uncapped_witness:
  "child_reaped demo_os (demo_limits\<lparr>output_limit := 2\<rparr>) \<and>
   list_all (\<lambda>e. length (out_read e) \<le> 4095 \<and> CHR 0x00 \<notin> set (out_read e)) (os_drain demo_os) \<and>
   stdout_written (os_drain demo_os) = ''hello'' \<and>
   fst (runProgram demo_os ''a.out'' ''input.txt'' (demo_limits\<lparr>output_limit := 2\<rparr>)) =
     Returned \<lparr>status = ''OLE'', time_used = 12, mem_used = 2097152, exit_code = 0,
        error_message = [], stdout_content = ''hello'', output_len = 5, allocated_cpu = ''1''\<rparr> \<and>
   \<not> child_reaped (demo_os\<lparr>os_wait4 := None\<rparr>) demo_limits \<and>
   fst (runProgram (demo_os\<lparr>os_wait4 := None\<rparr>) ''a.out'' ''input.txt'' demo_limits) =
     Returned \<lparr>status = ''RE'', time_used = 0, mem_used = 0, exit_code = - 1,
        error_message = ''Failed to wait for child process'', stdout_content = [],
        output_len = 0, allocated_cpu = ''1''\<rparr>"
proof -
  let ?lim = "demo_limits\<lparr>output_limit := 2\<rparr>"
  let ?r = "\<lparr>status = ''OLE'', time_used = 12, mem_used = 2097152, exit_code = 0,
      error_message = [], stdout_content = ''hello'', output_len = 5, allocated_cpu = ''1''\<rparr>"
  let ?h = "demo_os\<lparr>os_wait4 := None\<rparr>"
  let ?f = "\<lparr>status = ''RE'', time_used = 0, mem_used = 0, exit_code = - 1,
      error_message = ''Failed to wait for child process'', stdout_content = [],
      output_len = 0, allocated_cpu = ''1''\<rparr>"
  have a: "child_reaped demo_os ?lim"
    by (simp add: child_reaped_def path_defs run_defs demo_os_def demo_files_def Let_def)
  have c: "\<forall>e\<in>set (os_drain demo_os). length (out_read e) \<le> 4095 \<and> CHR 0x00 \<notin> set (out_read e)"
    by (simp add: demo_os_def)
  have w: "stdout_written (os_drain demo_os) = ''hello''"
    by (simp add: demo_os_def)
  have run: "fst (runProgram demo_os ''a.out'' ''input.txt'' ?lim) = Returned ?r"
    by (simp add: run_defs demo_os_def demo_files_def demo_limits_def Let_def)
  then have eq: "runProgram demo_os ''a.out'' ''input.txt'' ?lim =
      (Returned ?r, snd (runProgram demo_os ''a.out'' ''input.txt'' ?lim))"
    by (simp add: prod_eq_iff)
  from stdout_content_uncapped [OF eq] a c
  have k: "stdout_content ?r = stdout_written (os_drain demo_os)" by blast
  have n: "\<not> child_reaped ?h demo_limits"
    by (simp add: child_reaped_def demo_os_def)
  have runf: "fst (runProgram ?h ''a.out'' ''input.txt'' demo_limits) = Returned ?f"
    by (simp add: run_defs demo_os_def demo_files_def demo_limits_def Let_def)
  then have eqf: "runProgram ?h ''a.out'' ''input.txt'' demo_limits =
      (Returned ?f, snd (runProgram ?h ''a.out'' ''input.txt'' demo_limits))"
    by (simp add: prod_eq_iff)
  from stdout_content_uncapped [OF eqf] n
  have e: "stdout_content ?f = [] \<and> output_len ?f = 0" by blast
  have l: "list_all (\<lambda>e. length (out_read e) \<le> 4095 \<and> CHR 0x00 \<notin> set (out_read e)) (os_drain demo_os)"
    using c by (simp add: list_all_iff)
  from a l w run n runf k e show ?thesis by blast
qed

text \<open>
  C6 as stated fails: with an output limit of 2 bytes, the five bytes the child printed
  are all in \<open>stdout_content\<close> (and the run is classified OLE).
\<close>

theorem stdout_content_exceeds_output_limit:
  "fst (runProgram demo_os ''a.out'' ''input.txt'' (demo_limits\<lparr>output_limit := 2\<rparr>)) =
     Returned \<lparr>status = ''OLE'', time_used = 12, mem_used = 2097152, exit_code = 0,
        error_message = [], stdout_content = ''hello'', output_len = 5, allocated_cpu = ''1''\<rparr> \<and>
   \<not> int (length ''hello'') \<le> output_limit (demo_limits\<lparr>output_limit := 2\<rparr>)"
  by (simp add: run_defs demo_os_def demo_files_def demo_limits_def Let_def)


section \<open>Sandbox faults\<close>

text \<open>
  C1 (as amended). Each run-stage sandbox fault (cgroup creation, memory-limit write,
  cpu-limit write, pipe creation, fork, enrolment of the child, reaping the child) makes
  \<open>runProgram\<close> return the result it started from, with status \<open>RE\<close>, exit code -1,
  zero time, memory and output, and a short message naming the fault; \<open>runProgram\<close>
  never sets \<open>SE\<close>. On the enrolment failure the supervisor sends SIGKILL to the child
  and reaps it with \<open>waitpid\<close>, then closes the four pipe ends and removes the cgroup
  directory, before the result is returned.
\<close>

theorem sandbox_faults_report_RE:
  "status (fault_result m cpu) = ''RE'' \<and> exit_code (fault_result m cpu) = - 1 \<and>
   error_message (fault_result m cpu) = m \<and>
   (\<not> fst (create os (w_new os)) \<longrightarrow>
      fst (runProgram os exe inp limits) = Returned (fault_result msg_create_failed [])) \<and>
   (fst (create os (w_new os)) \<and>
    \<not> fst (setMemoryLimit os (memory_limit limits) (w_created os)) \<longrightarrow>
      fst (runProgram os exe inp limits) =
        Returned (fault_result ''Failed to set memory limit in cgroup'' [])) \<and>
   (fst (create os (w_new os)) \<and>
    fst (setMemoryLimit os (memory_limit limits) (w_created os)) \<and>
    \<not> fst (setCpuLimit os (w_memory os limits)) \<longrightarrow>
      fst (runProgram os exe inp limits) =
        Returned (fault_result ''Failed to set CPU limit in cgroup'' [])) \<and>
   (cgroup_ready os limits \<and> (os_pipe_out os = None \<or> os_pipe_err os = None) \<longrightarrow>
      fst (runProgram os exe inp limits) =
        Returned (fault_result ''Failed to create pipes'' (cpu_read os limits))) \<and>
   (cgroup_ready os limits \<and> os_pipe_out os \<noteq> None \<and> os_pipe_err os \<noteq> None \<and>
    os_fork os = Fork_failed \<longrightarrow>
      fst (runProgram os exe inp limits) =
        Returned (fault_result ''Failed to fork process'' (cpu_read os limits))) \<and>
   (child_forked os limits pid \<and> os_pipe_out os = Some po \<and> os_pipe_err os = Some pe \<and>
    \<not> fst (addProcess os pid (w_forked os limits)) \<longrightarrow>
      runProgram os exe inp limits =
        (Returned (fault_result ''Failed to add process to cgroup'' (cpu_read os limits)),
         trace (snd (addProcess os pid (w_forked os limits))) @
           [Sys_kill pid SIGKILL, Sys_waitpid pid, Sys_close (fst po), Sys_close (snd po),
            Sys_close (fst pe), Sys_close (snd pe),
            Sys_rmdir (cgroup_path (CgroupManager_new os))])) \<and>
   (child_awaited os limits pid \<and> os_wait4 os = None \<longrightarrow>
      fst (runProgram os exe inp limits) =
        Returned (fault_result ''Failed to wait for child process'' (cpu_read os limits)))"
proof -
  have shape: "status (fault_result m cpu) = ''RE'' \<and> exit_code (fault_result m cpu) = - 1 \<and>
      error_message (fault_result m cpu) = m"
    by (simp add: fault_result_def)
  show ?thesis
    using shape runProgram_create_failed [of os exe inp limits]
      runProgram_memory_failed [of os limits exe inp]
      runProgram_cpu_failed [of os limits exe inp]
      runProgram_pipe_failed [of os limits exe inp]
      runProgram_fork_failed [of os limits exe inp]
      runProgram_enroll_failed [of os limits pid po pe exe inp]
      runProgram_wait_failed [of os limits pid exe inp]
    by blast
qed

theorem sandbox_faults_report_RE_witness:
  "\<not> fst (create (demo_os\<lparr>os_mkdir := \<lambda>_. False\<rparr>) (w_new (demo_os\<lparr>os_mkdir := \<lambda>_. False\<rparr>))) \<and>
   fst (runProgram (demo_os\<lparr>os_mkdir := \<lambda>_. False\<rparr>) ''a.out'' ''input.txt'' demo_limits) =
     Returned (fault_result msg_create_failed []) \<and>
   child_forked (demo_os\<lparr>os_open_out := \<lambda>p. p \<noteq> ''/sys/fs/cgroup/judge_123456/cgroup.procs''\<rparr>)
     demo_limits 4242 \<and>
   \<not> fst (addProcess (demo_os\<lparr>os_open_out := \<lambda>p. p \<noteq> ''/sys/fs/cgroup/judge_123456/cgroup.procs''\<rparr>)
            4242
            (w_forked (demo_os\<lparr>os_open_out := \<lambda>p. p \<noteq> ''/sys/fs/cgroup/judge_123456/cgroup.procs''\<rparr>)
               demo_limits)) \<and>
   runProgram (demo_os\<lparr>os_open_out := \<lambda>p. p \<noteq> ''/sys/fs/cgroup/judge_123456/cgroup.procs''\<rparr>)
       ''a.out'' ''input.txt'' demo_limits =
     (Returned (fault_result ''Failed to add process to cgroup'' ''1''),
      [Sys_mkdir ''/sys/fs/cgroup/judge_123456'',
       Sys_write ''/sys/fs/cgroup/judge_123456/memory.max'' (''67108864'' @ endl),
       Sys_write ''/sys/fs/cgroup/cgroup.subtree_control'' (''+cpuset'' @ endl),
       Sys_write ''/sys/fs/cgroup/judge_123456/cpuset.cpus'' (''1'' @ endl),
       Sys_write ''/sys/fs/cgroup/judge_123456/cpuset.mems'' (''0'' @ endl),
       Sys_pipe, Sys_pipe, Sys_fork,
       Sys_kill 4242 SIGKILL, Sys_waitpid 4242,
       Sys_close 3, Sys_close 4, Sys_close 5, Sys_close 6,
       Sys_rmdir ''/sys/fs/cgroup/judge_123456'']) \<and>
   child_awaited (demo_os\<lparr>os_wait4 := None\<rparr>) demo_limits 4242 \<and>
   fst (runProgram (demo_os\<lparr>os_wait4 := None\<rparr>) ''a.out'' ''input.txt'' demo_limits) =
     Returned (fault_result ''Failed to wait for child process'' ''1'')"
proof -
  let ?h1 = "demo_os\<lparr>os_mkdir := \<lambda>_. False\<rparr>"
  let ?h6 = "demo_os\<lparr>os_open_out := \<lambda>p. p \<noteq> ''/sys/fs/cgroup/judge_123456/cgroup.procs''\<rparr>"
  let ?h7 = "demo_os\<lparr>os_wait4 := None\<rparr>"
  have a1: "\<not> fst (create ?h1 (w_new ?h1))"
    by (simp add: create_def Let_def demo_os_def)
  from sandbox_faults_report_RE [of "[]" "[]" ?h1 "''a.out''" "''input.txt''" demo_limits] a1
  have r1: "fst (runProgram ?h1 ''a.out'' ''input.txt'' demo_limits) =
      Returned (fault_result msg_create_failed [])"
    by blast
  have a6: "child_forked ?h6 demo_limits 4242"
    by (simp add: path_defs run_defs demo_os_def demo_files_def Let_def)
  have p6: "os_pipe_out ?h6 = Some (3, 4)" "os_pipe_err ?h6 = Some (5, 6)"
    by (simp_all add: demo_os_def)
  have b6: "\<not> fst (addProcess ?h6 4242 (w_forked ?h6 demo_limits))"
    by (simp add: path_defs run_defs demo_os_def demo_files_def Let_def)
  have c6: "cpu_read ?h6 demo_limits = ''1''"
    by (simp add: path_defs run_defs demo_os_def demo_files_def Let_def)
  have t6: "trace (snd (addProcess ?h6 4242 (w_forked ?h6 demo_limits))) =
      [Sys_mkdir ''/sys/fs/cgroup/judge_123456'',
       Sys_write ''/sys/fs/cgroup/judge_123456/memory.max'' (''67108864'' @ endl),
       Sys_write ''/sys/fs/cgroup/cgroup.subtree_control'' (''+cpuset'' @ endl),
       Sys_write ''/sys/fs/cgroup/judge_123456/cpuset.cpus'' (''1'' @ endl),
       Sys_write ''/sys/fs/cgroup/judge_123456/cpuset.mems'' (''0'' @ endl),
       Sys_pipe, Sys_pipe, Sys_fork]"
    by (simp add: path_defs run_defs demo_os_def demo_files_def demo_limits_def Let_def)
  have n6: "cgroup_path (CgroupManager_new ?h6) = ''/sys/fs/cgroup/judge_123456''"
    by (simp add: run_defs demo_os_def Let_def)
  have "runProgram ?h6 ''a.out'' ''input.txt'' demo_limits =
        (Returned (fault_result ''Failed to add process to cgroup'' (cpu_read ?h6 demo_limits)),
         trace (snd (addProcess ?h6 4242 (w_forked ?h6 demo_limits))) @
           [Sys_kill 4242 SIGKILL, Sys_waitpid 4242, Sys_close 3, Sys_close 4,
            Sys_close 5, Sys_close 6,
            Sys_rmdir (cgroup_path (CgroupManager_new ?h6))])"
    using sandbox_faults_report_RE
      [of "[]" "[]" ?h6 "''a.out''" "''input.txt''" demo_limits 4242 "(3, 4)" "(5, 6)"] a6 p6 b6
    by simp
  then have r6: "runProgram ?h6 ''a.out'' ''input.txt'' demo_limits =
     (Returned (fault_result ''Failed to add process to cgroup'' ''1''),
      [Sys_mkdir ''/sys/fs/cgroup/judge_123456'',
       Sys_write ''/sys/fs/cgroup/judge_123456/memory.max'' (''67108864'' @ endl),
       Sys_write ''/sys/fs/cgroup/cgroup.subtree_control'' (''+cpuset'' @ endl),
       Sys_write ''/sys/fs/cgroup/judge_123456/cpuset.cpus'' (''1'' @ endl),
       Sys_write ''/sys/fs/cgroup/judge_123456/cpuset.mems'' (''0'' @ endl),
       Sys_pipe, Sys_pipe, Sys_fork,
       Sys_kill 4242 SIGKILL, Sys_waitpid 4242,
       Sys_close 3, Sys_close 4, Sys_close 5, Sys_close 6,
       Sys_rmdir ''/sys/fs/cgroup/judge_123456''])"
    by (simp add: c6 t6 n6)
  have a7: "child_awaited ?h7 demo_limits 4242" by (rule demo_awaited_wait4)
  have b7: "os_wait4 ?h7 = None" by simp
  have c7: "cpu_read ?h7 demo_limits = ''1''"
    by (simp add: path_defs run_defs demo_os_def demo_files_def Let_def)
  from sandbox_faults_report_RE [of "[]" "[]" ?h7 "''a.out''" "''input.txt''" demo_limits 4242] a7 b7
  have "fst (runProgram ?h7 ''a.out'' ''input.txt'' demo_limits) =
      Returned (fault_result ''Failed to wait for child process'' (cpu_read ?h7 demo_limits))"
    by blast
  then have r7: "fst (runProgram ?h7 ''a.out'' ''input.txt'' demo_limits) =
      Returned (fault_result ''Failed to wait for child process'' ''1'')"
    by (simp add: c7)
  from a1 r1 a6 b6 r6 a7 r7 show ?thesis by blast
qed

text \<open>
  C1 as stated fails: on a host where the cgroup directory cannot be created, the result
  carries the status \<open>RE\<close>, not \<open>SE\<close>.
\<close>

theorem cgroup_creation_fault_is_not_SE:
  "fst (runProgram (demo_os\<lparr>os_mkdir := \<lambda>_. False\<rparr>) ''a.out'' ''input.txt'' demo_limits) =
     Returned \<lparr>status = ''RE'', time_used = 0, mem_used = 0, exit_code = - 1,
        error_message = msg_create_failed, stdout_content = [], output_len = 0,
        allocated_cpu = []\<rparr> \<and>
   status \<lparr>status = ''RE'', time_used = 0, mem_used = 0, exit_code = - 1,
        error_message = msg_create_failed, stdout_content = [], output_len = 0,
        allocated_cpu = []\<rparr> \<noteq> ''SE''"
  by (simp add: runProgram_def create_def leave_def cleanup_def log_def Let_def demo_os_def)

text \<open>
  C9 (as amended). A run that fails before the cgroup is configured (creation,
  memory-limit or cpu-limit failure) returns an empty \<open>allocated_cpu\<close>. Pipe-creation and
  fork failure come after \<open>allocated_cpu\<close> was read back from the node: the result then
  carries the first line of the node's \<open>cpuset.cpus\<close> (empty only when that file cannot
  be read or starts with an empty line).
\<close>

theorem allocated_cpu_on_early_faults:
  "(\<not> cgroup_ready os limits \<longrightarrow>
      (\<exists>m. fst (runProgram os exe inp limits) = Returned (fault_result m []))) \<and>
   (cgroup_ready os limits \<and>
    (os_pipe_out os = None \<or> os_pipe_err os = None \<or> os_fork os = Fork_failed) \<longrightarrow>
      (\<exists>m. fst (runProgram os exe inp limits) = Returned (fault_result m (cpu_read os limits)))) \<and>
   (cgroup_ready os limits \<longrightarrow>
      cpu_read os limits =
        (case os_read os (cgroup_path (CgroupManager_new os) @ ''/cpuset.cpus'') of
           None \<Rightarrow> [] | Some content \<Rightarrow> first_line content)) \<and>
   allocated_cpu (fault_result m cpu) = cpu"
proof -
  have early: "\<exists>m. fst (runProgram os exe inp limits) = Returned (fault_result m [])"
    if "\<not> cgroup_ready os limits"
  proof -
    from that consider "\<not> fst (create os (w_new os))"
      | "fst (create os (w_new os))" "\<not> fst (setMemoryLimit os (memory_limit limits) (w_created os))"
      | "fst (create os (w_new os))" "fst (setMemoryLimit os (memory_limit limits) (w_created os))"
        "\<not> fst (setCpuLimit os (w_memory os limits))"
      by (auto simp: cgroup_ready_def)
    then show ?thesis
    proof cases
      case 1
      from runProgram_create_failed [OF 1] show ?thesis by blast
    next
      case 2
      from runProgram_memory_failed [OF 2] show ?thesis by blast
    next
      case 3
      from runProgram_cpu_failed [OF 3] show ?thesis by blast
    qed
  qed
  have late: "\<exists>m. fst (runProgram os exe inp limits) = Returned (fault_result m (cpu_read os limits))"
    if "cgroup_ready os limits"
       "os_pipe_out os = None \<or> os_pipe_err os = None \<or> os_fork os = Fork_failed"
  proof (cases "os_pipe_out os = None \<or> os_pipe_err os = None")
    case True
    from runProgram_pipe_failed [OF that(1) True] show ?thesis by blast
  next
    case False
    with that(2) have "os_pipe_out os \<noteq> None" "os_pipe_err os \<noteq> None" "os_fork os = Fork_failed"
      by auto
    from runProgram_fork_failed [OF that(1) this] show ?thesis by blast
  qed
  have readback: "cpu_read os limits =
        (case os_read os (cgroup_path (CgroupManager_new os) @ ''/cpuset.cpus'') of
           None \<Rightarrow> [] | Some content \<Rightarrow> first_line content)"
    if "cgroup_ready os limits"
    using created_w_cpu [OF that] path_w_cpu [of os limits]
    by (simp add: cpu_read_def getAllocatedCpu_def)
  from early late readback show ?thesis by simp
qed

theorem allocated_cpu_on_early_faults_witness:
  "\<not> cgroup_ready (demo_os\<lparr>os_mkdir := \<lambda>_. False\<rparr>) demo_limits \<and>
   (\<exists>m. fst (runProgram (demo_os\<lparr>os_mkdir := \<lambda>_. False\<rparr>) ''a.out'' ''input.txt'' demo_limits) =
          Returned (fault_result m [])) \<and>
   cgroup_ready (demo_os\<lparr>os_fork := Fork_failed\<rparr>) demo_limits \<and>
   cpu_read (demo_os\<lparr>os_fork := Fork_failed\<rparr>) demo_limits = ''1'' \<and>
   (\<exists>m. fst (runProgram (demo_os\<lparr>os_fork := Fork_failed\<rparr>) ''a.out'' ''input.txt'' demo_limits) =
          Returned (fault_result m ''1''))"
proof -
  let ?h1 = "demo_os\<lparr>os_mkdir := \<lambda>_. False\<rparr>"
  let ?h5 = "demo_os\<lparr>os_fork := Fork_failed\<rparr>"
  have a1: "\<not> cgroup_ready ?h1 demo_limits"
    by (simp add: cgroup_ready_def create_def Let_def demo_os_def)
  have a5: "cgroup_ready ?h5 demo_limits"
    by (simp add: path_defs run_defs demo_os_def demo_files_def Let_def)
  have b5: "os_fork ?h5 = Fork_failed" by simp
  have c5: "cpu_read ?h5 demo_limits = ''1''"
    by (simp add: path_defs run_defs demo_os_def demo_files_def Let_def)
  from allocated_cpu_on_early_faults [of ?h1 demo_limits "''a.out''" "''input.txt''"] a1
  have r1: "\<exists>m. fst (runProgram ?h1 ''a.out'' ''input.txt'' demo_limits) = Returned (fault_result m [])"
    by blast
  from allocated_cpu_on_early_faults [of ?h5 demo_limits "''a.out''" "''input.txt''"] a5 b5
  have "\<exists>m. fst (runProgram ?h5 ''a.out'' ''input.txt'' demo_limits) =
      Returned (fault_result m (cpu_read ?h5 demo_limits))"
    by blast
  then have r5: "\<exists>m. fst (runProgram ?h5 ''a.out'' ''input.txt'' demo_limits) =
      Returned (fault_result m ''1'')"
    by (simp add: c5)
  from a1 r1 a5 c5 r5 show ?thesis by blast
qed

text \<open>
  C9 as stated fails: when the pipes cannot be created, and when \<open>fork\<close> fails, the
  result names the core read back from the cgroup, here core 1.
\<close>

theorem pipe_and_fork_failure_keep_allocated_cpu:
  "fst (runProgram (demo_os\<lparr>os_pipe_out := None\<rparr>) ''a.out'' ''input.txt'' demo_limits) =
     Returned \<lparr>status = ''RE'', time_used = 0, mem_used = 0, exit_code = - 1,
        error_message = ''Failed to create pipes'', stdout_content = [], output_len = 0,
        allocated_cpu = ''1''\<rparr> \<and>
   fst (runProgram (demo_os\<lparr>os_fork := Fork_failed\<rparr>) ''a.out'' ''input.txt'' demo_limits) =
     Returned \<lparr>status = ''RE'', time_used = 0, mem_used = 0, exit_code = - 1,
        error_message = ''Failed to fork process'', stdout_content = [], output_len = 0,
        allocated_cpu = ''1''\<rparr> \<and>
   allocated_cpu \<lparr>status = ''RE'', time_used = 0, mem_used = 0, exit_code = - 1,
        error_message = ''Failed to create pipes'', stdout_content = [], output_len = 0,
        allocated_cpu = ''1''\<rparr> \<noteq> []"
  by (simp add: run_defs demo_os_def demo_files_def demo_limits_def Let_def)

section \<open>Result encoder: results\<close>

text \<open>The equation of \<open>digits\<close> is applied by hand from here on.\<close>

declare digits.simps [simp del]

lemma expect_prefix [simp]: "expect p (p @ rest) = Some rest"
  by (simp add: expect_def starts_with_def)

lemma unescape_to_quote_roundtrip:
  "unescape_to_quote (escape s @ CHR 0x22 # rest) = Some (s, rest)"
proof (induction s)
  case Nil
  then show ?case by (cases rest) (simp_all add: escape_def)
next
  case (Cons c s)
  have e: "escape (c # s) = escape_char c @ escape s" by (simp add: escape_def)
  obtain d ds where t: "escape s @ CHR 0x22 # rest = d # ds"
    by (cases "escape s @ CHR 0x22 # rest") auto
  consider (special) x where "escape_char c = [CHR 0x5C, x]" "unescape_char x = Some c"
    | (plain) "escape_char c = [c]" "c \<noteq> CHR 0x22" "c \<noteq> CHR 0x5C"
  proof (cases "c = CHR 0x22 \<or> c = CHR 0x5C \<or> c = CHR 0x0A \<or> c = CHR 0x0D \<or> c = CHR 0x09")
    case True
    then have "\<exists>x. escape_char c = [CHR 0x5C, x] \<and> unescape_char x = Some c"
      by (elim disjE) (simp_all add: escape_char_def unescape_char_def)
    with special show ?thesis by blast
  next
    case False
    then have "escape_char c = [c]" "c \<noteq> CHR 0x22" "c \<noteq> CHR 0x5C"
      by (simp_all add: escape_char_def)
    with plain show ?thesis by blast
  qed
  then show ?case
  proof cases
    case special
    with Cons show ?thesis by (simp add: e)
  next
    case plain
    have "unescape_to_quote (c # d # ds) =
        map_option (\<lambda>(s, rest). (c # s, rest)) (unescape_to_quote (d # ds))"
      using plain by simp
    with Cons t plain show ?thesis by (simp add: e)
  qed
qed

lemma digit_char:
  assumes "k < 10"
  shows "is_digit (''0123456789'' ! k) \<and> digit_val (''0123456789'' ! k) = int k"
proof -
  from assms have "k \<in> {0, 1, 2, 3, 4, 5, 6, 7, 8, 9}" by auto
  then show ?thesis by (auto simp: is_digit_def digit_val_def)
qed

lemma decimal_snoc: "decimal (xs @ [c]) = decimal xs * 10 + digit_val c"
  by (simp add: decimal_def)

lemma digits_facts: "list_all is_digit (digits n) \<and> digits n \<noteq> [] \<and> decimal (digits n) = int n"
proof (induction n rule: digits.induct)
  case (1 n)
  show ?case
  proof (cases "n < 10")
    case True
    then have "digits n = [''0123456789'' ! n]" by (subst digits.simps) simp
    with digit_char [OF True] show ?thesis by (simp add: decimal_def)
  next
    case False
    then have d: "digits n = digits (n div 10) @ [''0123456789'' ! (n mod 10)]"
      by (subst digits.simps) simp
    have "n mod 10 < 10" by simp
    moreover have "int (n div 10) * 10 + int (n mod 10) = int n"
    proof -
      have "n div 10 * 10 + n mod 10 = n" by simp
      then have "int (n div 10 * 10 + n mod 10) = int n" by (rule arg_cong)
      then show ?thesis by (simp only: of_nat_add of_nat_mult of_nat_numeral)
    qed
    ultimately show ?thesis
      using digit_char [of "n mod 10"] 1 [OF False]
      unfolding d by (simp add: decimal_snoc del: digits.simps)
  qed
qed

lemma takeWhile_digits:
  assumes "list_all is_digit ds" and "rest = [] \<or> \<not> is_digit (hd rest)"
  shows "takeWhile is_digit (ds @ rest) = ds \<and> dropWhile is_digit (ds @ rest) = rest"
proof -
  from assms(2) have base: "takeWhile is_digit rest = [] \<and> dropWhile is_digit rest = rest"
    by (cases rest) auto
  from assms(1) base show ?thesis by (induction ds) auto
qed

lemma minus_not_digit: "\<not> is_digit (CHR ''-'')"
  by (simp add: is_digit_def)

lemma read_int_roundtrip:
  assumes "rest = [] \<or> \<not> is_digit (hd rest)"
  shows "read_int (to_string i @ rest) = Some (i, rest)"
proof (cases "i < 0")
  case True
  let ?ds = "digits (nat (- i))"
  from digits_facts [of "nat (- i)"] have f: "list_all is_digit ?ds" "?ds \<noteq> []" "decimal ?ds = - i"
    using True by simp_all
  from takeWhile_digits [OF f(1) assms] f True show ?thesis
    by (simp add: read_int_def to_string_def Let_def)
next
  case False
  let ?ds = "digits (nat i)"
  from digits_facts [of "nat i"] have f: "list_all is_digit ?ds" "?ds \<noteq> []" "decimal ?ds = i"
    using False by simp_all
  from f obtain c cs where c: "?ds = c # cs" "is_digit c" by (cases ?ds) auto
  then have "c \<noteq> CHR ''-''" using minus_not_digit by auto
  with takeWhile_digits [OF f(1) assms] f False c show ?thesis
    by (simp add: read_int_def to_string_def Let_def)
qed


lemmas sep_defs =
  json_open_def sep_time_used_def sep_mem_used_def sep_exit_code_def sep_error_message_def
  sep_stdout_def sep_output_len_def sep_allocated_cpu_def json_close_def

lemma resultToJson_layout:
  "resultToJson r =
     json_open @ status r @ CHR 0x22 #
     sep_time_used @ to_string (time_used r) @
     sep_mem_used @ to_string (mem_used r) @
     sep_exit_code @ to_string (exit_code r) @
     sep_error_message @ escape (error_message r) @ CHR 0x22 #
     sep_stdout @ escape (stdout_content r) @ CHR 0x22 #
     sep_output_len @ to_string (output_len r) @
     sep_allocated_cpu @ allocated_cpu r @ CHR 0x22 # json_close"
  by (simp add: resultToJson_def sep_defs endl_def)

lemma read_int_before_sep:
  "read_int (to_string i @ sep_mem_used @ x) = Some (i, sep_mem_used @ x)"
  "read_int (to_string i @ sep_exit_code @ x) = Some (i, sep_exit_code @ x)"
  "read_int (to_string i @ sep_error_message @ x) = Some (i, sep_error_message @ x)"
  "read_int (to_string i @ sep_allocated_cpu @ x) = Some (i, sep_allocated_cpu @ x)"
  by (rule read_int_roundtrip, simp add: sep_defs is_digit_def)+

lemma escape_has_no_control:
  "CHR 0x0A \<notin> set (escape s) \<and> CHR 0x0D \<notin> set (escape s) \<and> CHR 0x09 \<notin> set (escape s)"
  by (induction s) (auto simp: escape_def escape_char_def)

lemma escape_plain: "plain_text s \<Longrightarrow> escape s = s"
  by (induction s) (simp_all add: plain_text_def escape_def escape_char_def)

lemma verdict_plain: "s \<in> set verdicts \<Longrightarrow> plain_text s"
  by (auto simp: verdicts_def plain_text_def)

lemma decimal_plain: "list_all is_digit s \<Longrightarrow> plain_text s"
  by (induction s) (auto simp: plain_text_def is_digit_def)

text \<open>What \<open>runProgram\<close> stores in \<open>status\<close> is one of the verdicts.\<close>

lemma classify_status:
  "status r \<in> set verdicts \<Longrightarrow> status (classify limits st err r) \<in> set verdicts"
  by (simp add: classify_def Let_def verdicts_def)

lemma runProgram_status:
  assumes "fst (runProgram os exe inp limits) = Returned r"
  shows "status r \<in> set verdicts"
proof -
  let ?outs = "drain (os_drain os) ([], [], False, False)"
  from runProgram_cases [of os exe inp limits] assms
  consider (fault) m cpu where "r = fault_result m cpu"
    | (classified) st mm m cpu where
        "r = classify limits st (snd ?outs)
           ((fault_result m cpu)\<lparr>time_used := os_elapsed os, mem_used := mm,
              stdout_content := fst ?outs, output_len := wrap32 (int (length (fst ?outs)))\<rparr>)"
    by auto
  then show ?thesis
  proof cases
    case fault
    then show ?thesis by (simp add: fault_result_def verdicts_def)
  next
    case classified
    show ?thesis unfolding classified
      by (rule classify_status) (simp add: fault_result_def verdicts_def)
  qed
qed

text \<open>
  C7. For every result of the data model (\<open>status\<close> one of the verdicts,
  \<open>allocated_cpu\<close> a core number, or any text without the five characters),
  \<open>resultToJson\<close> writes one object with the fields in the order status, time_used,
  mem_used, exit_code, error_message, stdout, output_len, allocated_cpu, in which every
  string value is escaped for double quote, backslash, newline, carriage return and tab
  (no raw newline, carriage return or tab is left in an escaped value); the output is a
  function of the result, and the decoder that applies the inverse of the escape rules
  to the four strings gives back every field of the result, byte for byte.
\<close>

theorem resultToJson_roundtrip:
  fixes r :: JudgeResult
  assumes "status r \<in> set verdicts" and "plain_text (allocated_cpu r)"
  shows "resultToJson r =
           json_open @ escape (status r) @ CHR 0x22 #
           sep_time_used @ to_string (time_used r) @
           sep_mem_used @ to_string (mem_used r) @
           sep_exit_code @ to_string (exit_code r) @
           sep_error_message @ escape (error_message r) @ CHR 0x22 #
           sep_stdout @ escape (stdout_content r) @ CHR 0x22 #
           sep_output_len @ to_string (output_len r) @
           sep_allocated_cpu @ escape (allocated_cpu r) @ CHR 0x22 # json_close \<and>
         decodeJson (resultToJson r) = Some r \<and>
         unescape_to_quote (escape s @ CHR 0x22 # rest) = Some (s, rest) \<and>
         CHR 0x0A \<notin> set (escape s) \<and> CHR 0x0D \<notin> set (escape s) \<and>
         CHR 0x09 \<notin> set (escape s)"
proof -
  have e: "escape (status r) = status r" "escape (allocated_cpu r) = allocated_cpu r"
    using assms by (simp_all add: escape_plain verdict_plain)
  have layout: "resultToJson r =
           json_open @ escape (status r) @ CHR 0x22 #
           sep_time_used @ to_string (time_used r) @
           sep_mem_used @ to_string (mem_used r) @
           sep_exit_code @ to_string (exit_code r) @
           sep_error_message @ escape (error_message r) @ CHR 0x22 #
           sep_stdout @ escape (stdout_content r) @ CHR 0x22 #
           sep_output_len @ to_string (output_len r) @
           sep_allocated_cpu @ escape (allocated_cpu r) @ CHR 0x22 # json_close"
    by (simp only: e resultToJson_layout)
  have "decodeJson (resultToJson r) =
      Some \<lparr>status = status r, time_used = time_used r, mem_used = mem_used r,
            exit_code = exit_code r, error_message = error_message r,
            stdout_content = stdout_content r, output_len = output_len r,
            allocated_cpu = allocated_cpu r\<rparr>"
    unfolding decodeJson_def layout
    by (simp only: expect_prefix unescape_to_quote_roundtrip read_int_before_sep
        Option.bind.simps prod.case simp_thms if_True)
  then have "decodeJson (resultToJson r) = Some r" by simp
  with layout unescape_to_quote_roundtrip [of s rest] escape_has_no_control [of s]
  show ?thesis by blast
qed

theorem resultToJson_roundtrip_witness:
  \<open>''RE'' \<in> set verdicts \<and> plain_text ''3'' \<and>
   escape (''say "hi"'' @ endl) = [CHR ''s'', CHR ''a'', CHR ''y'', CHR '' '', CHR 0x5C, CHR 0x22,
     CHR ''h'', CHR ''i'', CHR 0x5C, CHR 0x22, CHR 0x5C, CHR ''n''] \<and>
   decodeJson (resultToJson
     \<lparr>status = ''RE'', time_used = 7, mem_used = 4096, exit_code = - 1,
      error_message = ''say "hi"'' @ endl, stdout_content = [CHR 0x09, CHR 0x5C],
      output_len = 2, allocated_cpu = ''3''\<rparr>) =
   Some \<lparr>status = ''RE'', time_used = 7, mem_used = 4096, exit_code = - 1,
      error_message = ''say "hi"'' @ endl, stdout_content = [CHR 0x09, CHR 0x5C],
      output_len = 2, allocated_cpu = ''3''\<rparr>\<close>
proof -
  let ?r = \<open>\<lparr>status = ''RE'', time_used = 7, mem_used = 4096, exit_code = - 1,
      error_message = ''say "hi"'' @ endl, stdout_content = [CHR 0x09, CHR 0x5C],
      output_len = 2, allocated_cpu = ''3''\<rparr>\<close>
  have v: "status ?r \<in> set verdicts" by (simp add: verdicts_def)
  have c: "plain_text (allocated_cpu ?r)" by (simp add: plain_text_def)
  from resultToJson_roundtrip [OF v c, of "[]" "[]"]
  have "decodeJson (resultToJson ?r) = Some ?r" by blast
  moreover have \<open>escape (''say "hi"'' @ endl) = [CHR ''s'', CHR ''a'', CHR ''y'', CHR '' '',
      CHR 0x5C, CHR 0x22, CHR ''h'', CHR ''i'', CHR 0x5C, CHR 0x22, CHR 0x5C, CHR ''n'']\<close>
    by (simp add: escape_def escape_char_def endl_def)
  ultimately show ?thesis using v c by simp
qed

end
